theory Spec2Isabelle
  imports Main "HOL-Library.Word" "HOL-Library.AList"
begin

unbundle bit_operations_syntax

section \<open>Strings\<close>

text \<open>
  A Go string is a sequence of bytes; it is modelled as a \<open>string\<close> (a list of 8-bit
  characters). The functions of package \<open>strings\<close> that the program calls are modelled
  on ASCII text: case mapping touches the letters \<open>a..z\<close> and \<open>A..Z\<close> only and white
  space is the six ASCII white-space bytes. MAC addresses, interface names and the
  \<open>DHCP\<close> keyword, which is all these functions are applied to, are ASCII.
\<close>

definition lower_letters :: string where
  "lower_letters = ''abcdefghijklmnopqrstuvwxyz''"

definition upper_letters :: string where
  "upper_letters = ''ABCDEFGHIJKLMNOPQRSTUVWXYZ''"

definition upper_char :: "char \<Rightarrow> char" where
  "upper_char c = (case map_of (zip lower_letters upper_letters) c of Some u \<Rightarrow> u | None \<Rightarrow> c)"

definition lower_char :: "char \<Rightarrow> char" where
  "lower_char c = (case map_of (zip upper_letters lower_letters) c of Some l \<Rightarrow> l | None \<Rightarrow> c)"

definition ToUpper :: "string \<Rightarrow> string" where
  "ToUpper s = map upper_char s"

definition ToLower :: "string \<Rightarrow> string" where
  "ToLower s = map lower_char s"

text \<open>\<open>strings.EqualFold\<close>: equality up to the case of letters.\<close>

definition EqualFold :: "string \<Rightarrow> string \<Rightarrow> bool" where
  "EqualFold s t = (ToLower s = ToLower t)"

text \<open>The white space of \<open>strings.TrimSpace\<close>: tab, line feed, vertical tab, form feed,
  carriage return and space.\<close>

definition is_space :: "char \<Rightarrow> bool" where
  "is_space c = (c \<in> set [CHR 0x09, CHR 0x0A, CHR 0x0B, CHR 0x0C, CHR 0x0D, CHR '' ''])"

definition TrimSpace :: "string \<Rightarrow> string" where
  "TrimSpace s = rev (dropWhile is_space (rev (dropWhile is_space s)))"

fun HasPrefix :: "string \<Rightarrow> string \<Rightarrow> bool" where
  "HasPrefix s [] = True"
| "HasPrefix [] (p # ps) = False"
| "HasPrefix (c # s) (p # ps) = (c = p \<and> HasPrefix s ps)"

fun Contains :: "string \<Rightarrow> string \<Rightarrow> bool" where
  "Contains [] sub = (sub = [])"
| "Contains (c # s) sub = (HasPrefix (c # s) sub \<or> Contains s sub)"

text \<open>\<open>strings.ReplaceAll s old new\<close> for a non-empty \<open>old\<close>: the non-overlapping
  occurrences of \<open>old\<close>, found from the left, are replaced. (The program never passes an
  empty \<open>old\<close>; the model then returns \<open>s\<close>.)\<close>

function ReplaceAll :: "string \<Rightarrow> string \<Rightarrow> string \<Rightarrow> string" where
  "ReplaceAll [] old new = []"
| "ReplaceAll (c # s) old new =
     (if old \<noteq> [] \<and> HasPrefix (c # s) old
      then new @ ReplaceAll (drop (length old) (c # s)) old new
      else c # ReplaceAll s old new)"
  by pat_completeness auto
termination
  by (relation "measure (\<lambda>(s, old, new). length s)") (auto simp: neq_Nil_conv)

section \<open>The canonical network model (package config)\<close>

text \<open>
  The records follow the fields the server and the clients use
  (\<open>NetworkConfig.Routes\<close>, \<open>ConfigResponse.Networks\<close>, \<open>CloudInitNetwork.Ethernets\<close>).
  A Go map is an association list with distinct keys: \<open>m[k]\<close> is \<open>map_of\<close>,
  \<open>m[k] = v\<close> is \<open>AList.update\<close>, and \<open>range m\<close> visits the list from its head. Go
  leaves the order of \<open>range\<close> open; the order of the list stands for whichever order
  one run takes. In \<open>CloudInitEthernet\<close> the field \<open>eth_Routes\<close> is \<open>Routes\<close> and
  \<open>Nameservers\<close> is \<open>Nameservers.Addresses\<close>.
\<close>

record Route =
  To :: string
  Via :: string

record NetworkConfig =
  DHCP :: bool
  Address :: string
  Gateway :: string
  DNS :: "string list"
  Routes :: "Route list"

record LXDInstance =
  Name :: string
  Config :: "(string \<times> string) list"

record CloudInitEthernet =
  DHCP4 :: bool
  Addresses :: "string list"
  Gateway4 :: string
  eth_Routes :: "Route list"
  Nameservers :: "string list"

record CloudInitNetwork =
  Ethernets :: "(string \<times> CloudInitEthernet) list"

record ConfigResponse =
  Hostname :: string
  Network :: NetworkConfig
  Networks :: "(string \<times> NetworkConfig) list"

text \<open>The zero value of \<open>NetworkConfig\<close>, and a map read that yields the empty string
  for a key that is absent.\<close>

definition zero_NetworkConfig :: NetworkConfig where
  "zero_NetworkConfig = \<lparr>DHCP = False, Address = '''', Gateway = '''', DNS = [], Routes = []\<rparr>"

definition index_str :: "(string \<times> string) list \<Rightarrow> string \<Rightarrow> string" where
  "index_str m k = (case map_of m k of None \<Rightarrow> '''' | Some v \<Rightarrow> v)"

section \<open>The cloud-init declaration parser (server.go, parseAllNetworkConfigs)\<close>

definition is_default_route :: "Route \<Rightarrow> bool" where
  "is_default_route route = (To route = ''default'' \<or> To route = ''0.0.0.0/0'')"

text \<open>The loop over \<open>eth.Routes\<close> (server.go, lines 197 to 207).\<close>

fun process_routes :: "Route list \<Rightarrow> NetworkConfig \<Rightarrow> NetworkConfig" where
  "process_routes [] netConfig = netConfig"
| "process_routes (route # rest) netConfig =
     (if is_default_route route
      then process_routes rest
             (if Gateway netConfig = '''' then netConfig\<lparr>Gateway := Via route\<rparr> else netConfig)
      else process_routes rest (netConfig\<lparr>Routes := Routes netConfig @ [route]\<rparr>))"

text \<open>The body of the loop over \<open>cloudInit.Ethernets\<close> (lines 184 to 210): the
  \<open>NetworkConfig\<close> of one declared interface.\<close>

definition ethernet_config :: "CloudInitEthernet \<Rightarrow> NetworkConfig" where
  "ethernet_config eth =
     (let netConfig = zero_NetworkConfig\<lparr>DHCP := DHCP4 eth\<rparr>;
          netConfig = (case Addresses eth of [] \<Rightarrow> netConfig
                       | a # _ \<Rightarrow> netConfig\<lparr>Address := a\<rparr>);
          netConfig = (if Gateway4 eth \<noteq> '''' then netConfig\<lparr>Gateway := Gateway4 eth\<rparr>
                       else netConfig);
          netConfig = process_routes (eth_Routes eth) netConfig
      in netConfig\<lparr>DNS := Nameservers eth\<rparr>)"

fun parse_ethernets ::
  "(string \<times> CloudInitEthernet) list \<Rightarrow> (string \<times> NetworkConfig) list
     \<Rightarrow> (string \<times> NetworkConfig) list" where
  "parse_ethernets [] networks = networks"
| "parse_ethernets ((ifaceName, eth) # rest) networks =
     parse_ethernets rest (AList.update ifaceName (ethernet_config eth) networks)"

text \<open>\<open>yaml.Unmarshal\<close> is a library function: \<open>yaml\<close> is its result on a text,
  \<open>None\<close> when it reports an error.\<close>

definition parseAllNetworkConfigs ::
  "(string \<Rightarrow> CloudInitNetwork option) \<Rightarrow> LXDInstance \<Rightarrow> (string \<times> NetworkConfig) list" where
  "parseAllNetworkConfigs yaml instance =
     (let networks = [];
          cloudInitConfig = index_str (Config instance) ''cloud-init.network-config''
      in if TrimSpace (ToUpper cloudInitConfig) = ''DHCP'' then networks
         else case yaml cloudInitConfig of
                None \<Rightarrow> networks
              | Some cloudInit \<Rightarrow> parse_ethernets (Ethernets cloudInit) networks)"

text \<open>
  The gateway and the routes of an interface as the specification words them: the
  gateway is the declared field if present, else the \<open>via\<close> of the first route to
  \<open>default\<close> or \<open>0.0.0.0/0\<close>; that route is excluded from the routes and every other
  declared route passes through.
\<close>

fun remove_first_default :: "Route list \<Rightarrow> Route list" where
  "remove_first_default [] = []"
| "remove_first_default (route # rest) =
     (if is_default_route route then rest else route # remove_first_default rest)"

definition stated_gateway :: "CloudInitEthernet \<Rightarrow> string" where
  "stated_gateway eth =
     (if Gateway4 eth \<noteq> [] then Gateway4 eth
      else case find is_default_route (eth_Routes eth) of None \<Rightarrow> [] | Some route \<Rightarrow> Via route)"

definition stated_routes :: "CloudInitEthernet \<Rightarrow> Route list" where
  "stated_routes eth =
     (if Gateway4 eth \<noteq> [] then eth_Routes eth else remove_first_default (eth_Routes eth))"

text \<open>What the loop over the routes computes: the gateway derived from the routes is the
  \<open>via\<close> of the first default route whose \<open>via\<close> is not empty.\<close>

definition derived_gateway :: "Route list \<Rightarrow> string" where
  "derived_gateway routes =
     (case find (\<lambda>route. is_default_route route \<and> Via route \<noteq> []) routes of
        None \<Rightarrow> []
      | Some route \<Rightarrow> Via route)"

section \<open>The configuration service (server.go)\<close>

record Server =
  instancesFile :: string
  instances :: "LXDInstance list"
  lastActivity :: int

text \<open>
  What the server reads from outside: \<open>ReadFile\<close> is \<open>os.ReadFile\<close> (\<open>None\<close> when the
  file cannot be read), \<open>json_Unmarshal\<close> is \<open>json.Unmarshal\<close> into a list of instances
  (\<open>None\<close> when the text is malformed), \<open>yaml_Unmarshal\<close> is \<open>yaml.Unmarshal\<close>. Time is
  a number; \<open>now\<close> is what \<open>time.Now()\<close> returns during a request.
\<close>

record server_env =
  ReadFile :: "string \<Rightarrow> string option"
  json_Unmarshal :: "string \<Rightarrow> LXDInstance list option"
  yaml_Unmarshal :: "string \<Rightarrow> CloudInitNetwork option"

datatype load_error = ReadFailed | ParseFailed

definition loadInstances :: "server_env \<Rightarrow> Server \<Rightarrow> load_error option \<times> Server" where
  "loadInstances env s =
     (case ReadFile env (instancesFile s) of
        None \<Rightarrow> (Some ReadFailed, s)
      | Some data \<Rightarrow>
          (case json_Unmarshal env data of
             None \<Rightarrow> (Some ParseFailed, s)
           | Some insts \<Rightarrow> (None, s\<lparr>instances := insts\<rparr>)))"

definition Reload :: "server_env \<Rightarrow> Server \<Rightarrow> load_error option \<times> Server" where
  "Reload env s = loadInstances env s"

definition NewServer :: "server_env \<Rightarrow> int \<Rightarrow> string \<Rightarrow> load_error + Server" where
  "NewServer env now file =
     (case loadInstances env \<lparr>instancesFile = file, instances = [], lastActivity = now\<rparr> of
        (Some err, _) \<Rightarrow> Inl err
      | (None, s) \<Rightarrow> Inr s)"

definition updateActivity :: "int \<Rightarrow> Server \<Rightarrow> Server" where
  "updateActivity now s = s\<lparr>lastActivity := now\<rparr>"

definition GetLastActivity :: "Server \<Rightarrow> int" where
  "GetLastActivity s = lastActivity s"

text \<open>\<open>findInstanceByMAC\<close>: the inner loop over the keys of one instance, then the loop
  over the instances.\<close>

fun config_has_mac :: "(string \<times> string) list \<Rightarrow> string \<Rightarrow> bool" where
  "config_has_mac [] mac = False"
| "config_has_mac ((key, val) # rest) mac =
     (if Contains key ''hwaddr'' \<and> EqualFold val mac then True else config_has_mac rest mac)"

fun find_instance :: "LXDInstance list \<Rightarrow> string \<Rightarrow> LXDInstance option" where
  "find_instance [] mac = None"
| "find_instance (inst # rest) mac =
     (if config_has_mac (Config inst) mac then Some inst else find_instance rest mac)"

definition findInstanceByMAC :: "Server \<Rightarrow> string \<Rightarrow> LXDInstance option" where
  "findInstanceByMAC s mac = find_instance (instances s) mac"

text \<open>An instance declares a MAC address when one of its keys containing \<open>hwaddr\<close> holds
  it, up to the case of letters.\<close>

definition declares_mac :: "LXDInstance \<Rightarrow> string \<Rightarrow> bool" where
  "declares_mac inst mac =
     (\<exists>(key, val) \<in> set (Config inst). Contains key ''hwaddr'' \<and> EqualFold val mac)"

text \<open>Line 100 of \<open>HandleConfig\<close>: the request's MAC address, normalized.\<close>

definition normalize_mac :: "string \<Rightarrow> string" where
  "normalize_mac mac = ToLower (ReplaceAll mac ''-'' '':'')"

text \<open>What the normalization does to one character.\<close>

definition norm_char :: "char \<Rightarrow> char" where
  "norm_char c = lower_char (if c = CHR ''-'' then CHR '':'' else c)"

text \<open>A request is its method, its \<open>mac\<close> query parameter (empty when absent) and
  whether the connection still takes the response body; a response is a status and a
  body.\<close>

record Request =
  Method :: string
  Query_mac :: string
  Writable :: bool

datatype body =
  ErrorText string
  | ConfigJSON ConfigResponse
  | ReloadText nat
  | StatusJSON nat int int

record Response =
  Status :: nat
  Body :: body

definition http_Error :: "string \<Rightarrow> nat \<Rightarrow> Response" where
  "http_Error msg code = \<lparr>Status = code, Body = ErrorText msg\<rparr>"

definition HandleConfig :: "server_env \<Rightarrow> int \<Rightarrow> Server \<Rightarrow> Request \<Rightarrow> Response \<times> Server" where
  "HandleConfig env now s0 r =
     (let s = updateActivity now s0 in
      if Method r \<noteq> ''GET'' then (http_Error ''Method not allowed'' 405, s)
      else if Query_mac r = '''' then (http_Error ''Missing 'mac' query parameter'' 400, s)
      else
        let mac = normalize_mac (Query_mac r) in
        case findInstanceByMAC s mac of
          None \<Rightarrow> (http_Error ''Instance not found'' 404, s)
        | Some instance \<Rightarrow>
            let networks = parseAllNetworkConfigs (yaml_Unmarshal env) instance;
                primaryNetwork = (case networks of [] \<Rightarrow> zero_NetworkConfig
                                  | (_, netCfg) # _ \<Rightarrow> netCfg);
                primaryNetwork = (if length networks = 0 then zero_NetworkConfig\<lparr>DHCP := True\<rparr>
                                  else primaryNetwork);
                response = \<lparr>Hostname = Name instance, Network = primaryNetwork,
                            Networks = networks\<rparr>
            in if Writable r then (\<lparr>Status = 200, Body = ConfigJSON response\<rparr>, s)
               else (http_Error ''Internal server error'' 500, s))"

definition HandleReload :: "server_env \<Rightarrow> int \<Rightarrow> Server \<Rightarrow> Request \<Rightarrow> Response \<times> Server" where
  "HandleReload env now s0 r =
     (let s = updateActivity now s0 in
      if Method r \<noteq> ''POST'' then (http_Error ''Method not allowed'' 405, s)
      else case Reload env s of
             (Some err, s') \<Rightarrow> (http_Error ''Failed to reload'' 500, s')
           | (None, s') \<Rightarrow> (\<lparr>Status = 200, Body = ReloadText (length (instances s'))\<rparr>, s'))"

definition HandleStatus :: "int \<Rightarrow> Server \<Rightarrow> Request \<Rightarrow> Response \<times> Server" where
  "HandleStatus now s r =
     (if Method r \<noteq> ''GET'' then (http_Error ''Method not allowed'' 405, s)
      else
        let instanceCount = length (instances s);
            lastActivity = GetLastActivity s
        in (\<lparr>Status = 200,
             Body = StatusJSON instanceCount lastActivity (now - lastActivity)\<rparr>, s))"

section \<open>MAC discovery on the client (mac.go)\<close>

text \<open>
  \<open>net.Interface\<close> with the fields the client reads. \<open>Flags\<close> is a bit set with
  \<open>FlagUp = 1 << 0\<close> and \<open>FlagLoopback = 1 << 2\<close>; a hardware address is a list of
  bytes.
\<close>

record Interface =
  if_Name :: string
  Flags :: "32 word"
  HardwareAddr :: "8 word list"

definition FlagUp :: "32 word" where
  "FlagUp = push_bit 0 1"

definition FlagLoopback :: "32 word" where
  "FlagLoopback = push_bit 2 1"

text \<open>
  \<open>HardwareAddr.String\<close> of package \<open>net\<close>: two digits of \<open>hexDigit\<close> for every byte,
  a colon before every byte but the first. \<open>hw_string\<close> is its loop, with the index
  \<open>i\<close> and the buffer.
\<close>

definition hexDigit :: string where
  "hexDigit = ''0123456789abcdef''"

definition hex_pair :: "string \<Rightarrow> 8 word \<Rightarrow> string" where
  "hex_pair digits b = [digits ! unat (drop_bit 4 b), digits ! unat (b AND 0xF)]"

fun hw_string :: "nat \<Rightarrow> 8 word list \<Rightarrow> string \<Rightarrow> string" where
  "hw_string i [] buf = buf"
| "hw_string i (b # a) buf =
     hw_string (i + 1) a ((if i > 0 then buf @ '':'' else buf) @ hex_pair hexDigit b)"

definition HardwareAddr_String :: "8 word list \<Rightarrow> string" where
  "HardwareAddr_String a = (if length a = 0 then '''' else hw_string 0 a [])"

datatype mac_error =
  InterfacesFailed
  | NoValidInterface
  | InterfaceNotFound string
  | NoMACAddress string

text \<open>The loop of \<open>GetPrimaryMAC\<close> over the interfaces.\<close>

fun first_valid_mac :: "Interface list \<Rightarrow> string option" where
  "first_valid_mac [] = None"
| "first_valid_mac (iface # rest) =
     (if Flags iface AND FlagLoopback \<noteq> 0 then first_valid_mac rest
      else if length (HardwareAddr iface) = 0 then first_valid_mac rest
      else if Flags iface AND FlagUp = 0 then first_valid_mac rest
      else let mac = HardwareAddr_String (HardwareAddr iface)
           in if mac \<noteq> '''' then Some (ToLower mac) else first_valid_mac rest)"

text \<open>\<open>net.Interfaces()\<close> and \<open>net.InterfaceByName\<close> are the system's answers:
  \<open>None\<close> is their error.\<close>

definition GetPrimaryMAC :: "Interface list option \<Rightarrow> mac_error + string" where
  "GetPrimaryMAC net_Interfaces =
     (case net_Interfaces of
        None \<Rightarrow> Inl InterfacesFailed
      | Some interfaces \<Rightarrow>
          (case first_valid_mac interfaces of
             Some mac \<Rightarrow> Inr mac
           | None \<Rightarrow> Inl NoValidInterface))"

definition GetMACByName :: "(string \<Rightarrow> Interface option) \<Rightarrow> string \<Rightarrow> mac_error + string" where
  "GetMACByName net_InterfaceByName name =
     (case net_InterfaceByName name of
        None \<Rightarrow> Inl (InterfaceNotFound name)
      | Some iface \<Rightarrow>
          if length (HardwareAddr iface) = 0 then Inl (NoMACAddress name)
          else Inr (ToLower (HardwareAddr_String (HardwareAddr iface))))"

text \<open>
  The written forms of a MAC address that the specification speaks of: the bytes as
  pairs of hexadecimal digits taken from \<open>digits\<close>, separated by \<open>sep\<close>. The upper-case
  colon form and the lower-case hyphen form are two instances.
\<close>

fun mac_text :: "string \<Rightarrow> char \<Rightarrow> 8 word list \<Rightarrow> string" where
  "mac_text digits sep [] = []"
| "mac_text digits sep [b] = hex_pair digits b"
| "mac_text digits sep (b # b' # a) = hex_pair digits b @ sep # mac_text digits sep (b' # a)"

definition HEXDIGIT :: string where
  "HEXDIGIT = ''0123456789ABCDEF''"

definition upper_colon_form :: "8 word list \<Rightarrow> string" where
  "upper_colon_form a = mac_text HEXDIGIT CHR '':'' a"

definition lower_hyphen_form :: "8 word list \<Rightarrow> string" where
  "lower_hyphen_form a = mac_text hexDigit CHR ''-'' a"

definition lower_colon_form :: "8 word list \<Rightarrow> string" where
  "lower_colon_form a = mac_text hexDigit CHR '':'' a"

section \<open>The OpenWrt interface names (openwrt/network.go)\<close>

definition InterfaceMapping :: "(string \<times> string) list" where
  "InterfaceMapping =
     [(''eth0'', ''wan''), (''eth-0'', ''wan''),
      (''eth1'', ''lan''), (''eth-1'', ''lan''),
      (''eth2'', ''lan2''), (''eth-2'', ''lan2''),
      (''eth3'', ''lan3''), (''eth-3'', ''lan3'')]"

definition MapInterfaceName :: "string \<Rightarrow> string" where
  "MapInterfaceName cloudInitName =
     (case map_of InterfaceMapping cloudInitName of
        Some uciName \<Rightarrow> uciName
      | None \<Rightarrow>
          let name = ToLower cloudInitName;
              name = ReplaceAll name ''eth-'' '''';
              name = ReplaceAll name ''eth'' ''''
          in if name = ''0'' then ''wan''
             else if name = ''1'' then ''lan''
             else ''lan'' @ name)"

text \<open>
  The mapping as the specification and the comment in the code word it: a name of the
  table maps to its alias; of any other name the prefix \<open>eth-\<close> or \<open>eth\<close> is stripped,
  and the remaining suffix decides.
\<close>

definition strip_eth_prefix :: "string \<Rightarrow> string" where
  "strip_eth_prefix name =
     (if HasPrefix name ''eth-'' then drop 4 name
      else if HasPrefix name ''eth'' then drop 3 name
      else name)"

definition stated_MapInterfaceName :: "string \<Rightarrow> string" where
  "stated_MapInterfaceName cloudInitName =
     (case map_of InterfaceMapping cloudInitName of
        Some uciName \<Rightarrow> uciName
      | None \<Rightarrow>
          let suffix = strip_eth_prefix cloudInitName
          in if suffix = ''0'' then ''wan''
             else if suffix = ''1'' then ''lan''
             else ''lan'' @ suffix)"

section \<open>The client's view of the system\<close>

text \<open>
  The clients act on the system through library calls. What they attempt is recorded
  as a list of events, oldest first; what the system answers is given by a record of
  functions, which may depend on the events so far. An error is either one returned by
  a library call or one built by \<open>fmt.Errorf\<close> from a format and its arguments; a log
  line is the format and the arguments of \<open>log.Printf\<close>. \<open>No_error\<close> is a \<open>nil\<close> error
  passed as an argument.
\<close>

datatype error = SysError string | Errorf string "arg list"
  and arg = S string | I int | B bool | L "string list" | E error | No_error

datatype event =
  Exec "string list"
  | WriteFile string string
  | MkdirAll string
  | Get string
  | Sleep int
  | Log string "arg list"

text \<open>The result of \<open>net.ParseCIDR\<close>, as far as the clients read it: \<open>ip.String()\<close>,
  the prefix length \<open>ipNet.Mask.Size()\<close> and the mask in dotted decimal
  \<open>net.IP(ipNet.Mask).String()\<close>.\<close>

record cidr =
  ip_text :: string
  ones :: nat
  mask_text :: string

datatype http_result = TransportError | HttpResponse nat string

text \<open>
  \<open>ParseCIDR\<close> is \<open>net.ParseCIDR\<close> (\<open>None\<close>: error); \<open>exec\<close> runs an external command
  and tells whether it succeeded and what it printed; \<open>WriteFile_ok\<close> and
  \<open>MkdirAll_ok\<close> tell whether \<open>os.WriteFile\<close> and \<open>os.MkdirAll\<close> succeed;
  \<open>request_url\<close> is the text of the URL that \<open>requestConfig\<close> builds with package
  \<open>net/url\<close> from the server URL and the MAC address (\<open>None\<close>: \<open>url.Parse\<close> fails);
  \<open>http_Get\<close> is \<open>http.Get\<close>; \<open>json_Decode\<close> decodes a response body.
\<close>

record sys =
  ParseCIDR :: "string \<Rightarrow> cidr option"
  exec :: "event list \<Rightarrow> string list \<Rightarrow> bool \<times> string"
  WriteFile_ok :: "event list \<Rightarrow> string \<Rightarrow> bool"
  MkdirAll_ok :: "event list \<Rightarrow> string \<Rightarrow> bool"
  request_url :: "string \<Rightarrow> string \<Rightarrow> string option"
  http_Get :: "event list \<Rightarrow> string \<Rightarrow> http_result"
  json_Decode :: "string \<Rightarrow> ConfigResponse option"

definition nl :: string where
  "nl = [CHR 0x0A]"

text \<open>\<open>exec.Command(argv...)\<close> followed by \<open>CombinedOutput\<close>, \<open>Output\<close> or \<open>Run\<close>.\<close>

definition run_cmd :: "sys \<Rightarrow> string list \<Rightarrow> event list \<Rightarrow> (bool \<times> string) \<times> event list" where
  "run_cmd sys argv tr = (exec sys tr argv, tr @ [Exec argv])"

text \<open>Decimal digits of a number (\<open>%d\<close>).\<close>

function show_nat :: "nat \<Rightarrow> string" where
  "show_nat n =
     (if n < 10 then [''0123456789'' ! n]
      else show_nat (n div 10) @ [''0123456789'' ! (n mod 10)])"
  by pat_completeness auto
termination
  by (relation "measure id") auto

text \<open>\<open>strings.Split\<close> for a non-empty separator and \<open>strings.Join\<close>.\<close>

function split_from :: "string \<Rightarrow> string \<Rightarrow> string \<Rightarrow> string list" where
  "split_from [] sep cur = [cur]"
| "split_from (c # s) sep cur =
     (if sep \<noteq> [] \<and> HasPrefix (c # s) sep
      then cur # split_from (drop (length sep) (c # s)) sep []
      else split_from s sep (cur @ [c]))"
  by pat_completeness auto
termination
  by (relation "measure (\<lambda>(s, sep, cur). length s)") (auto simp: neq_Nil_conv)

definition Split :: "string \<Rightarrow> string \<Rightarrow> string list" where
  "Split s sep = split_from s sep []"

fun Join :: "string list \<Rightarrow> string \<Rightarrow> string" where
  "Join [] sep = []"
| "Join [x] sep = x"
| "Join (x # y # xs) sep = x @ sep @ Join (y # xs) sep"

section \<open>The OpenWrt applier (openwrt/network.go, cmd/client/openwrt/main.go)\<close>

text \<open>The loop over the commands in \<open>configureInterfaceDHCP\<close>: every command has three
  words; the result of a \<open>delete\<close> is ignored.\<close>

fun run_dhcp_commands :: "sys \<Rightarrow> string list list \<Rightarrow> event list \<Rightarrow> error option \<times> event list" where
  "run_dhcp_commands sys [] tr = (None, tr)"
| "run_dhcp_commands sys (args # rest) tr =
     (let ((ok, output), tr') = run_cmd sys args tr
      in if args ! 1 \<noteq> ''delete'' then
           if \<not> ok
           then (Some (Errorf ''failed to run %v: %s - %w'' [L args, S output, E (SysError ''exec'')]),
                 tr')
           else run_dhcp_commands sys rest tr'
         else run_dhcp_commands sys rest tr')"

definition configureInterfaceDHCP :: "sys \<Rightarrow> string \<Rightarrow> event list \<Rightarrow> error option \<times> event list" where
  "configureInterfaceDHCP sys uciInterface tr =
     (let prefix = ''network.'' @ uciInterface;
          commands = [[''uci'', ''set'', prefix @ ''.proto=dhcp''],
                      [''uci'', ''delete'', prefix @ ''.ipaddr''],
                      [''uci'', ''delete'', prefix @ ''.netmask''],
                      [''uci'', ''delete'', prefix @ ''.gateway''],
                      [''uci'', ''delete'', prefix @ ''.dns'']]
      in run_dhcp_commands sys commands tr)"

text \<open>The loop over the commands in \<open>configureInterfaceStatic\<close>.\<close>

fun run_static_commands :: "sys \<Rightarrow> string list list \<Rightarrow> event list \<Rightarrow> error option \<times> event list" where
  "run_static_commands sys [] tr = (None, tr)"
| "run_static_commands sys (args # rest) tr =
     (let ((ok, output), tr') = run_cmd sys args tr
      in if length args > 1 \<and> args ! 1 = ''delete'' then run_static_commands sys rest tr'
         else if \<not> ok
         then (Some (Errorf ''failed to run %v: %s - %w'' [L args, S output, E (SysError ''exec'')]),
               tr')
         else run_static_commands sys rest tr')"

definition configureInterfaceStatic ::
  "sys \<Rightarrow> string \<Rightarrow> NetworkConfig \<Rightarrow> event list \<Rightarrow> error option \<times> event list" where
  "configureInterfaceStatic sys uciInterface cfg tr =
     (case ParseCIDR sys (Address cfg) of
        None \<Rightarrow> (Some (Errorf ''invalid address format: %w'' [E (SysError ''net.ParseCIDR'')]), tr)
      | Some parsed \<Rightarrow>
          let mask = mask_text parsed;
              prefix = ''network.'' @ uciInterface;
              commands = [[''uci'', ''set'', prefix @ ''.proto=static''],
                          [''uci'', ''set'', prefix @ ''.ipaddr='' @ ip_text parsed],
                          [''uci'', ''set'', prefix @ ''.netmask='' @ mask]];
              commands = (if Gateway cfg \<noteq> ''''
                          then commands @ [[''uci'', ''set'', prefix @ ''.gateway='' @ Gateway cfg]]
                          else commands);
              commands = (if length (DNS cfg) > 0
                          then (commands @ [[''uci'', ''delete'', prefix @ ''.dns'']])
                               @ map (\<lambda>dns. [''uci'', ''add_list'', prefix @ ''.dns='' @ dns]) (DNS cfg)
                          else commands)
          in run_static_commands sys commands tr)"

definition ConfigureInterface ::
  "sys \<Rightarrow> string \<Rightarrow> NetworkConfig \<Rightarrow> event list \<Rightarrow> error option \<times> event list" where
  "ConfigureInterface sys uciInterface cfg tr =
     (if DHCP cfg then configureInterfaceDHCP sys uciInterface tr
      else configureInterfaceStatic sys uciInterface cfg tr)"




section \<open>The Linux appliers (linux/network.go)\<close>

text \<open>\<open>getNMConnectionForInterface\<close>: the connection bound to the device, else the
  connection named as the interface, else a new connection.\<close>

definition getNMConnectionForInterface ::
  "sys \<Rightarrow> string \<Rightarrow> event list \<Rightarrow> (error + string) \<times> event list" where
  "getNMConnectionForInterface sys ifaceName tr =
     (let ((ok, output), tr1) =
            run_cmd sys [''nmcli'', ''-t'', ''-f'', ''NAME,DEVICE'', ''connection'', ''show''] tr
      in if \<not> ok
         then (Inl (Errorf ''failed to list connections: %w'' [E (SysError ''exec'')]), tr1)
         else
           let lines = Split (TrimSpace output) nl
           in case find (\<lambda>line. let parts = Split line '':''
                                 in length parts \<ge> 2 \<and> parts ! 1 = ifaceName) lines of
                Some line \<Rightarrow> (Inr (Split line '':'' ! 0), tr1)
              | None \<Rightarrow>
                  (case find (\<lambda>line. let parts = Split line '':''
                                      in length parts \<ge> 1 \<and> parts ! 0 = ifaceName) lines of
                     Some line \<Rightarrow> (Inr (Split line '':'' ! 0), tr1)
                   | None \<Rightarrow>
                       let connName = ''cyber-range-'' @ ifaceName;
                           ((ok, output), tr2) =
                             run_cmd sys [''nmcli'', ''connection'', ''add'', ''type'', ''ethernet'',
                                          ''con-name'', connName, ''ifname'', ifaceName] tr1
                       in if \<not> ok
                          then (Inl (Errorf ''failed to create connection: %s - %w''
                                       [S output, E (SysError ''exec'')]), tr2)
                          else (Inr connName, tr2)))"

text \<open>\<open>getNMConnectionName\<close>: the first active ethernet connection, else the first
  active connection.\<close>

definition getNMConnectionName :: "sys \<Rightarrow> event list \<Rightarrow> (error + string) \<times> event list" where
  "getNMConnectionName sys tr =
     (let ((ok, output), tr1) =
            run_cmd sys [''nmcli'', ''-t'', ''-f'', ''NAME,TYPE'', ''connection'', ''show'',
                         ''--active''] tr
      in if \<not> ok
         then (Inl (Errorf ''failed to list connections: %w'' [E (SysError ''exec'')]), tr1)
         else
           let lines = Split (TrimSpace output) nl
           in case find (\<lambda>line. let parts = Split line '':''
                                 in length parts \<ge> 2 \<and> Contains (parts ! 1) ''ethernet'') lines of
                Some line \<Rightarrow> (Inr (Split line '':'' ! 0), tr1)
              | None \<Rightarrow>
                  if length lines > 0 \<and> lines ! 0 \<noteq> '''' \<and> length (Split (lines ! 0) '':'') \<ge> 1
                  then (Inr (Split (lines ! 0) '':'' ! 0), tr1)
                  else (Inl (Errorf ''no active network connection found'' []), tr1))"

text \<open>\<open>configureNetworkManager\<close>, in three steps: the connection is modified for DHCP
  or for the static address; custom routes are set; the connection is brought up.\<close>

definition nm_modify :: "sys \<Rightarrow> string \<Rightarrow> NetworkConfig \<Rightarrow> event list \<Rightarrow> error option \<times> event list" where
  "nm_modify sys connName cfg tr =
     (if DHCP cfg then
        let ((ok, output), tr1) =
              run_cmd sys [''nmcli'', ''connection'', ''modify'', connName,
                           ''ipv4.method'', ''auto'', ''ipv4.addresses'', '''',
                           ''ipv4.gateway'', '''', ''ipv4.dns'', ''''] tr
        in if \<not> ok
           then (Some (Errorf ''nmcli modify failed: %s - %w'' [S output, E (SysError ''exec'')]), tr1)
           else (None, tr1)
      else
        case ParseCIDR sys (Address cfg) of
          None \<Rightarrow> (Some (Errorf ''invalid address format: %w'' [E (SysError ''net.ParseCIDR'')]), tr)
        | Some parsed \<Rightarrow>
            let address = ip_text parsed @ ''/'' @ show_nat (ones parsed);
                args = [''connection'', ''modify'', connName,
                        ''ipv4.method'', ''manual'', ''ipv4.addresses'', address];
                args = (if Gateway cfg \<noteq> '''' then args @ [''ipv4.gateway'', Gateway cfg] else args);
                args = (if length (DNS cfg) > 0 then args @ [''ipv4.dns'', Join (DNS cfg) '','']
                        else args);
                ((ok, output), tr1) = run_cmd sys (''nmcli'' # args) tr
            in if \<not> ok
               then (Some (Errorf ''nmcli modify failed: %s - %w'' [S output, E (SysError ''exec'')]),
                     tr1)
               else (None, tr1))"

definition nm_routes :: "sys \<Rightarrow> string \<Rightarrow> NetworkConfig \<Rightarrow> event list \<Rightarrow> error option \<times> event list" where
  "nm_routes sys connName cfg tr =
     (if length (Routes cfg) > 0 then
        let (_, tr1) = run_cmd sys [''nmcli'', ''connection'', ''modify'', connName,
                                    ''ipv4.routes'', ''''] tr;
            routeStrs = map (\<lambda>route. To route @ '' '' @ Via route) (Routes cfg);
            routesArg = Join routeStrs '', '';
            ((ok, output), tr2) =
              run_cmd sys [''nmcli'', ''connection'', ''modify'', connName,
                           ''ipv4.routes'', routesArg] tr1
        in if \<not> ok
           then (Some (Errorf ''nmcli routes failed: %s - %w'' [S output, E (SysError ''exec'')]), tr2)
           else (None, tr2)
      else (None, tr))"

definition configureNetworkManager ::
  "sys \<Rightarrow> string \<Rightarrow> NetworkConfig \<Rightarrow> event list \<Rightarrow> error option \<times> event list" where
  "configureNetworkManager sys ifaceName cfg tr =
     (let (conn, tr1) =
            (if ifaceName = '''' then
               (case getNMConnectionName sys tr of
                  (Inl err, tr') \<Rightarrow>
                    (Inl (Errorf ''failed to find NetworkManager connection: %w'' [E err]), tr')
                | (Inr connName, tr') \<Rightarrow> (Inr connName, tr'))
             else
               (case getNMConnectionForInterface sys ifaceName tr of
                  (Inl err, tr') \<Rightarrow>
                    (Inl (Errorf ''failed to find connection for %s: %w'' [S ifaceName, E err]), tr')
                | (Inr connName, tr') \<Rightarrow> (Inr connName, tr')))
      in case conn of
           Inl err \<Rightarrow> (Some err, tr1)
         | Inr connName \<Rightarrow>
             (case nm_modify sys connName cfg tr1 of
                (Some err, tr2) \<Rightarrow> (Some err, tr2)
              | (None, tr2) \<Rightarrow>
                  (case nm_routes sys connName cfg tr2 of
                     (Some err, tr3) \<Rightarrow> (Some err, tr3)
                   | (None, tr3) \<Rightarrow>
                       let ((ok, output), tr4) =
                             run_cmd sys [''nmcli'', ''connection'', ''up'', connName] tr3
                       in if \<not> ok
                          then (Some (Errorf ''nmcli connection up failed: %s - %w''
                                        [S output, E (SysError ''exec'')]), tr4)
                          else (None, tr4))))"


text \<open>The lines that the Netplan and the ifupdown documents have for routes and name
  servers.\<close>

definition netplan_route :: "Route \<Rightarrow> string" where
  "netplan_route route =
     ''        - to: '' @ To route @ nl @ ''          via: '' @ Via route @ nl"

definition netplan_dns :: "string \<Rightarrow> string" where
  "netplan_dns dns = ''          - '' @ dns @ nl"

text \<open>The body of the loop of \<open>configureNetplanAll\<close>: the document so far, extended by
  one interface, or the error that ends the function.\<close>

definition netplan_interface :: "sys \<Rightarrow> string \<Rightarrow> NetworkConfig \<Rightarrow> string \<Rightarrow> error + string" where
  "netplan_interface sys ifaceName cfg content0 =
     (let content = content0 @ ''    '' @ ifaceName @ '':'' @ nl
      in if DHCP cfg then
           let content = content @ ''      dhcp4: true'' @ nl
           in Inr (if length (Routes cfg) > 0
                   then content @ ''      routes:'' @ nl @ concat (map netplan_route (Routes cfg))
                   else content)
         else
           let content = content @ ''      dhcp4: false'' @ nl
           in case (if Address cfg \<noteq> '''' then
                      (case ParseCIDR sys (Address cfg) of
                         None \<Rightarrow> Inl (Errorf ''invalid address format for %s: %w''
                                        [S ifaceName, E (SysError ''net.ParseCIDR'')])
                       | Some _ \<Rightarrow> Inr (content @ ''      addresses:'' @ nl
                                          @ ''        - '' @ Address cfg @ nl))
                    else Inr content) of
                Inl err \<Rightarrow> Inl err
              | Inr content \<Rightarrow>
                  let content =
                        (if Gateway cfg \<noteq> '''' \<or> length (Routes cfg) > 0 then
                           (content @ ''      routes:'' @ nl)
                           @ (if Gateway cfg \<noteq> ''''
                              then ''        - to: default'' @ nl
                                   @ ''          via: '' @ Gateway cfg @ nl
                              else [])
                           @ concat (map netplan_route (Routes cfg))
                         else content)
                  in Inr (if length (DNS cfg) > 0
                          then content @ ''      nameservers:'' @ nl @ ''        addresses:'' @ nl
                               @ concat (map netplan_dns (DNS cfg))
                          else content))"



definition ifupdown_route :: "Route \<Rightarrow> string" where
  "ifupdown_route route =
     ''    post-up ip route add '' @ To route @ '' via '' @ Via route @ nl
     @ ''    pre-down ip route del '' @ To route @ '' via '' @ Via route @ nl"

text \<open>The body of the loop of \<open>configureIfupdownAll\<close>.\<close>

definition ifupdown_interface :: "sys \<Rightarrow> string \<Rightarrow> NetworkConfig \<Rightarrow> string \<Rightarrow> error + string" where
  "ifupdown_interface sys ifaceName cfg content =
     (case (if DHCP cfg
            then Inr (content @ nl @ ''auto '' @ ifaceName @ nl
                      @ ''iface '' @ ifaceName @ '' inet dhcp'' @ nl)
            else
              (case ParseCIDR sys (Address cfg) of
                 None \<Rightarrow> Inl (Errorf ''invalid address format for %s: %w''
                                [S ifaceName, E (SysError ''net.ParseCIDR'')])
               | Some parsed \<Rightarrow>
                   let mask = mask_text parsed;
                       content = content @ nl @ ''auto '' @ ifaceName @ nl
                                 @ ''iface '' @ ifaceName @ '' inet static'' @ nl;
                       content = content @ ''    address '' @ ip_text parsed @ nl;
                       content = content @ ''    netmask '' @ mask @ nl;
                       content = (if Gateway cfg \<noteq> ''''
                                  then content @ ''    gateway '' @ Gateway cfg @ nl
                                  else content)
                   in Inr (if length (DNS cfg) > 0
                           then content @ ''    dns-nameservers '' @ Join (DNS cfg) '' '' @ nl
                           else content))) of
        Inl err \<Rightarrow> Inl err
      | Inr content \<Rightarrow> Inr (content @ concat (map ifupdown_route (Routes cfg))))"

fun ifupdown_document :: "sys \<Rightarrow> (string \<times> NetworkConfig) list \<Rightarrow> string \<Rightarrow> error + string" where
  "ifupdown_document sys [] content = Inr content"
| "ifupdown_document sys ((ifaceName, cfg) # rest) content =
     (case ifupdown_interface sys ifaceName cfg content of
        Inl err \<Rightarrow> Inl err
      | Inr content' \<Rightarrow> ifupdown_document sys rest content')"

text \<open>The fallback of \<open>configureIfupdownAll\<close>: every interface is taken down and up,
  whatever the commands answer.\<close>

fun ifdown_ifup :: "sys \<Rightarrow> string list \<Rightarrow> event list \<Rightarrow> event list" where
  "ifdown_ifup sys [] tr = tr"
| "ifdown_ifup sys (ifaceName # rest) tr =
     (let (_, tr1) = run_cmd sys [''ifdown'', ifaceName] tr;
          (_, tr2) = run_cmd sys [''ifup'', ifaceName] tr1
      in ifdown_ifup sys rest tr2)"

definition configureIfupdownAll ::
  "sys \<Rightarrow> (string \<times> NetworkConfig) list \<Rightarrow> event list \<Rightarrow> error option \<times> event list" where
  "configureIfupdownAll sys networks tr =
     (let content = ''# Generated by Cyber Range Configuration Client'' @ nl
      in case ifupdown_document sys networks content of
           Inl err \<Rightarrow> (Some err, tr)
         | Inr content \<Rightarrow>
             let interfacesDDir = ''/etc/network/interfaces.d'';
                 tr1 = tr @ [MkdirAll interfacesDDir]
             in if \<not> MkdirAll_ok sys tr interfacesDDir
                then (Some (Errorf ''failed to create interfaces.d: %w''
                              [E (SysError ''os.MkdirAll'')]), tr1)
                else
                  let configPath = interfacesDDir @ ''/cyber-range'';
                      tr2 = tr1 @ [WriteFile configPath content]
                  in if \<not> WriteFile_ok sys tr1 configPath
                     then (Some (Errorf ''failed to write interfaces config: %w''
                                   [E (SysError ''os.WriteFile'')]), tr2)
                     else
                       let ((ok, _), tr3) = run_cmd sys [''systemctl'', ''restart'', ''networking''] tr2
                       in if \<not> ok then (None, ifdown_ifup sys (map fst networks) tr3)
                          else (None, tr3))"

section \<open>The Windows applier (windows/network.go)\<close>

definition configureDHCP :: "sys \<Rightarrow> string \<Rightarrow> event list \<Rightarrow> error option \<times> event list" where
  "configureDHCP sys adapterName tr =
     (let ((ok, output), tr1) =
            run_cmd sys [''netsh'', ''interface'', ''ip'', ''set'', ''address'', adapterName, ''dhcp''] tr
      in if \<not> ok
         then (Some (Errorf ''failed to set DHCP for IP: %s - %w'' [S output, E (SysError ''exec'')]),
               tr1)
         else
           let ((ok, output), tr2) =
                 run_cmd sys [''netsh'', ''interface'', ''ip'', ''set'', ''dns'', adapterName, ''dhcp''] tr1
           in if \<not> ok
              then (Some (Errorf ''failed to set DHCP for DNS: %s - %w''
                            [S output, E (SysError ''exec'')]), tr2)
              else (None, tr2))"

text \<open>The loop of \<open>configureStatic\<close> over the DNS servers after the first; \<open>i\<close> is the
  index of \<open>dns\<close> in \<open>cfg.DNS\<close>.\<close>

fun add_dns_servers :: "sys \<Rightarrow> string \<Rightarrow> nat \<Rightarrow> string list \<Rightarrow> event list \<Rightarrow> error option \<times> event list" where
  "add_dns_servers sys adapterName i [] tr = (None, tr)"
| "add_dns_servers sys adapterName i (dns # rest) tr =
     (let ((ok, output), tr1) =
            run_cmd sys [''netsh'', ''interface'', ''ip'', ''add'', ''dns'', adapterName, dns,
                         ''index='' @ show_nat (i + 1)] tr
      in if \<not> ok
         then (Some (Errorf ''failed to add DNS %s: %s - %w''
                       [S dns, S output, E (SysError ''exec'')]), tr1)
         else add_dns_servers sys adapterName (i + 1) rest tr1)"

definition configureStatic ::
  "sys \<Rightarrow> string \<Rightarrow> NetworkConfig \<Rightarrow> event list \<Rightarrow> error option \<times> event list" where
  "configureStatic sys adapterName cfg tr =
     (case ParseCIDR sys (Address cfg) of
        None \<Rightarrow> (Some (Errorf ''invalid address format: %w'' [E (SysError ''net.ParseCIDR'')]), tr)
      | Some parsed \<Rightarrow>
          let mask = mask_text parsed;
              ((ok, output), tr1) =
                run_cmd sys [''netsh'', ''interface'', ''ip'', ''set'', ''address'', adapterName,
                             ''static'', ip_text parsed, mask, Gateway cfg] tr
          in if \<not> ok
             then (Some (Errorf ''failed to set static IP: %s - %w''
                           [S output, E (SysError ''exec'')]), tr1)
             else
               (case DNS cfg of
                  [] \<Rightarrow> (None, tr1)
                | dns0 # others \<Rightarrow>
                    let ((ok, output), tr2) =
                          run_cmd sys [''netsh'', ''interface'', ''ip'', ''set'', ''dns'', adapterName,
                                       ''static'', dns0] tr1
                    in if \<not> ok
                       then (Some (Errorf ''failed to set primary DNS: %s - %w''
                                     [S output, E (SysError ''exec'')]), tr2)
                       else add_dns_servers sys adapterName 1 others tr2))"

text \<open>\<open>getPrimaryAdapterName\<close>: the first adapter that is no loopback, has a hardware
  address and is named like a wired connection; else the first that is no loopback and
  has a hardware address.\<close>

definition getPrimaryAdapterName :: "Interface list option \<Rightarrow> error + string" where
  "getPrimaryAdapterName net_Interfaces =
     (case net_Interfaces of
        None \<Rightarrow> Inl (SysError ''net.Interfaces'')
      | Some interfaces \<Rightarrow>
          let usable = (\<lambda>iface. \<not> (Flags iface AND FlagLoopback \<noteq> 0)
                                  \<and> \<not> (length (HardwareAddr iface) = 0))
          in case find (\<lambda>iface. usable iface
                          \<and> (Contains (ToLower (if_Name iface)) ''ethernet''
                              \<or> Contains (ToLower (if_Name iface)) ''local area'')) interfaces of
               Some iface \<Rightarrow> Inr (if_Name iface)
             | None \<Rightarrow>
                 (case find usable interfaces of
                    Some iface \<Rightarrow> Inr (if_Name iface)
                  | None \<Rightarrow> Inl (Errorf ''no suitable network adapter found'' [])))"

definition ConfigureNetwork ::
  "sys \<Rightarrow> Interface list option \<Rightarrow> NetworkConfig \<Rightarrow> event list \<Rightarrow> error option \<times> event list" where
  "ConfigureNetwork sys net_Interfaces cfg tr =
     (case getPrimaryAdapterName net_Interfaces of
        Inl err \<Rightarrow> (Some (Errorf ''failed to find network adapter: %w'' [E err]), tr)
      | Inr adapterName \<Rightarrow>
          if DHCP cfg then configureDHCP sys adapterName tr
          else configureStatic sys adapterName cfg tr)"

section \<open>The delivery client's fetch (client main.go: requestConfig, requestConfigWithRetry)\<close>

text \<open>A \<open>time.Duration\<close> is a number of nanoseconds.\<close>

definition Second :: int where
  "Second = 1000000000"

definition requestConfig ::
  "sys \<Rightarrow> string \<Rightarrow> string \<Rightarrow> event list \<Rightarrow> (error + ConfigResponse) \<times> event list" where
  "requestConfig sys serverURL mac tr =
     (case request_url sys serverURL mac of
        None \<Rightarrow> (Inl (Errorf ''invalid server URL: %w'' [E (SysError ''url.Parse'')]), tr)
      | Some u \<Rightarrow>
          let tr1 = tr @ [Get u]
          in case http_Get sys tr u of
               TransportError \<Rightarrow> (Inl (Errorf ''request failed: %w'' [E (SysError ''http.Get'')]), tr1)
             | HttpResponse StatusCode body \<Rightarrow>
                 if StatusCode \<noteq> 200
                 then (Inl (Errorf ''server returned %d: %s'' [I (int StatusCode), S body]), tr1)
                 else
                   (case json_Decode sys body of
                      None \<Rightarrow> (Inl (Errorf ''failed to parse response: %w''
                                       [E (SysError ''json.Decode'')]), tr1)
                    | Some cfg \<Rightarrow> (Inr cfg, tr1)))"

text \<open>The loop \<open>for i := 0; i < maxRetries; i++\<close> of \<open>requestConfigWithRetry\<close>, from
  the index \<open>i\<close> on, with \<open>lastErr\<close> (\<open>None\<close> is \<open>nil\<close>).\<close>

function retry_from ::
  "sys \<Rightarrow> string \<Rightarrow> string \<Rightarrow> int \<Rightarrow> int \<Rightarrow> int \<Rightarrow> error option \<Rightarrow> event list
     \<Rightarrow> (error + ConfigResponse) \<times> event list" where
  "retry_from sys serverURL mac maxRetries retryDelay i lastErr tr =
     (if i < maxRetries then
        let tr1 = (if i > 0
                   then tr @ [Log ''Retry %d/%d after %v...'' [I i, I (maxRetries - 1), I retryDelay],
                              Sleep retryDelay]
                   else tr)
        in case requestConfig sys serverURL mac tr1 of
             (Inr cfg, tr2) \<Rightarrow> (Inr cfg, tr2)
           | (Inl err, tr2) \<Rightarrow>
               retry_from sys serverURL mac maxRetries retryDelay (i + 1) (Some err)
                 (tr2 @ [Log ''Request failed: %v'' [E err]])
      else (Inl (Errorf ''failed after %d retries: %w''
                   [I maxRetries, (case lastErr of None \<Rightarrow> No_error | Some err \<Rightarrow> E err)]),
            tr))"
  by pat_completeness auto
termination
  by (relation "measure (\<lambda>(sys, serverURL, mac, maxRetries, retryDelay, i, lastErr, tr).
        nat (maxRetries - i))") auto

definition requestConfigWithRetry ::
  "sys \<Rightarrow> string \<Rightarrow> string \<Rightarrow> int \<Rightarrow> int \<Rightarrow> event list
     \<Rightarrow> (error + ConfigResponse) \<times> event list" where
  "requestConfigWithRetry sys serverURL mac maxRetries retryDelay tr =
     retry_from sys serverURL mac maxRetries retryDelay 0 None tr"

text \<open>
  Lines 80 to 85 of \<open>main\<close> of the Windows client (the OpenWrt client has the same
  budget, the Linux client 60 attempts 60 seconds apart): \<open>log.Fatalf\<close> writes the
  line and ends the process with status 1.
\<close>

datatype 'a step = Exited nat | Continues 'a

definition main_fetch :: "sys \<Rightarrow> string \<Rightarrow> string \<Rightarrow> event list \<Rightarrow> ConfigResponse step \<times> event list" where
  "main_fetch sys serverURL mac tr =
     (case requestConfigWithRetry sys serverURL mac 10 (15 * Second) tr of
        (Inl err, tr') \<Rightarrow> (Exited 1, tr' @ [Log ''Failed to get configuration: %v'' [E err]])
      | (Inr cfg, tr') \<Rightarrow>
          (Continues cfg,
           tr' @ [Log ''Received config: hostname=%s, dhcp=%v''
                    [S (Hostname cfg), B (DHCP (Network cfg))]]))"

text \<open>What a run has done: the number of requests sent, of attempts that failed, and
  the pauses taken.\<close>

definition requests_sent :: "event list \<Rightarrow> nat" where
  "requests_sent tr = length (filter (\<lambda>e. case e of Get _ \<Rightarrow> True | _ \<Rightarrow> False) tr)"

definition failed_attempts :: "event list \<Rightarrow> nat" where
  "failed_attempts tr =
     length (filter (\<lambda>e. case e of Log fmt _ \<Rightarrow> fmt = ''Request failed: %v'' | _ \<Rightarrow> False) tr)"

definition pauses :: "event list \<Rightarrow> int list" where
  "pauses tr = concat (map (\<lambda>e. case e of Sleep d \<Rightarrow> [d] | _ \<Rightarrow> []) tr)"

text \<open>The attempts of a run: those that failed, and the last one when the run returned
  a configuration.\<close>

definition attempts_made :: "(error + ConfigResponse) \<Rightarrow> event list \<Rightarrow> nat" where
  "attempts_made res new = failed_attempts new + (case res of Inr _ \<Rightarrow> 1 | Inl _ \<Rightarrow> 0)"

section \<open>Reading the OpenWrt client's log\<close>


definition is_configuring :: "event \<Rightarrow> bool" where
  "is_configuring e =
     (case e of
        Log fmt _ \<Rightarrow> fmt = ''Configuring %s -> UCI %s: dhcp=%v, address=%s''
      | _ \<Rightarrow> False)"

text \<open>The error of an address that \<open>net.ParseCIDR\<close> rejects, as the appliers of one
  interface return it.\<close>

definition invalid_address :: error where
  "invalid_address = Errorf ''invalid address format: %w'' [E (SysError ''net.ParseCIDR'')]"

section \<open>Concrete inputs\<close>

text \<open>The inputs on which the theorems below are evaluated.\<close>

definition example_ethernet :: CloudInitEthernet where
  "example_ethernet =
     \<lparr>DHCP4 = False, Addresses = [''10.0.1.10/24''], Gateway4 = [],
      eth_Routes = [\<lparr>To = ''default'', Via = ''10.0.1.1''\<rparr>,
                    \<lparr>To = ''10.0.2.0/24'', Via = ''10.0.1.5''\<rparr>],
      Nameservers = [''10.0.1.53'', ''10.0.1.54'']\<rparr>"

definition two_default_routes :: CloudInitEthernet where
  "two_default_routes =
     \<lparr>DHCP4 = False, Addresses = [''10.0.1.10/24''], Gateway4 = [],
      eth_Routes = [\<lparr>To = ''default'', Via = ''10.0.1.1''\<rparr>,
                    \<lparr>To = ''0.0.0.0/0'', Via = ''10.0.1.2''\<rparr>,
                    \<lparr>To = ''10.0.2.0/24'', Via = ''10.0.1.5''\<rparr>],
      Nameservers = []\<rparr>"

definition example_instance :: LXDInstance where
  "example_instance =
     \<lparr>Name = ''team1-web'',
      Config = [(''volatile.eth0.hwaddr'', ''00:16:3e:4f:e5:74''),
                (''cloud-init.network-config'', ''version: 2'')]\<rparr>"

definition dhcp_instance :: LXDInstance where
  "dhcp_instance =
     \<lparr>Name = ''team1-win10'',
      Config = [(''volatile.eth-0.hwaddr'', ''00:16:3e:aa:bb:cc''),
                (''cloud-init.network-config'', '' Dhcp'' @ [CHR 0x0A])]\<rparr>"

definition example_yaml :: "string \<Rightarrow> CloudInitNetwork option" where
  "example_yaml text =
     (if text = ''version: 2'' then Some \<lparr>Ethernets = [(''eth0'', example_ethernet)]\<rparr>
      else None)"

text \<open>A file system with one inventory file, which holds \<open>example_instance\<close>.\<close>

definition example_env :: server_env where
  "example_env =
     \<lparr>ReadFile = (\<lambda>path. if path = ''instances.json'' then Some ''[team1-web]'' else
                      if path = ''broken.json'' then Some ''[{'' else None),
      json_Unmarshal = (\<lambda>data. if data = ''[team1-web]'' then Some [example_instance] else None),
      yaml_Unmarshal = example_yaml\<rparr>"

definition example_server :: "string \<Rightarrow> Server" where
  "example_server file = \<lparr>instancesFile = file, instances = [dhcp_instance], lastActivity = 0\<rparr>"

definition example_mac :: "8 word list" where
  "example_mac = [0x00, 0x16, 0x3E, 0x4F, 0xE5, 0x74]"

definition example_interfaces :: "Interface list" where
  "example_interfaces =
     [\<lparr>if_Name = ''lo'', Flags = 0x5, HardwareAddr = []\<rparr>,
      \<lparr>if_Name = ''eth0'', Flags = 0x13, HardwareAddr = example_mac\<rparr>]"

text \<open>
  A system for the clients: \<open>parse_cidr4\<close> reads a dotted IPv4 address with a prefix
  length as \<open>net.ParseCIDR\<close> does; every command succeeds and prints nothing; every
  file can be written; the server answers 503 to the first two requests and then
  delivers \<open>example_response\<close>.
\<close>

definition parse_decimal :: "string \<Rightarrow> nat option" where
  "parse_decimal s =
     (if s = [] then None
      else fold (\<lambda>c acc. case (acc, map_of (zip ''0123456789'' [0, 1, 2, 3, 4, 5, 6, 7, 8, 9]) c) of
                            (Some n, Some d) \<Rightarrow> Some (10 * n + d)
                          | _ \<Rightarrow> None) s (Some 0))"

definition parse_cidr4 :: "string \<Rightarrow> cidr option" where
  "parse_cidr4 s =
     (case Split s ''/'' of
        [addr, len] \<Rightarrow>
          (case (those (map parse_decimal (Split addr ''.'')), parse_decimal len) of
             (Some octets, Some n) \<Rightarrow>
               if length octets = 4 \<and> list_all (\<lambda>octet. octet \<le> 255) octets \<and> n \<le> 32
               then Some \<lparr>ip_text = Join (map show_nat octets) ''.'',
                          ones = n,
                          mask_text = Join (map (\<lambda>k. show_nat (256 - 2 ^ (8 - min 8 (n - 8 * k))))
                                              [0, 1, 2, 3]) ''.''\<rparr>
               else None
           | _ \<Rightarrow> None)
      | _ \<Rightarrow> None)"

definition example_response :: ConfigResponse where
  "example_response =
     \<lparr>Hostname = ''team1-web'',
      Network = \<lparr>DHCP = True, Address = [], Gateway = [], DNS = [], Routes = []\<rparr>,
      Networks = [(''eth0'', \<lparr>DHCP = True, Address = [], Gateway = [], DNS = [], Routes = []\<rparr>)]\<rparr>"

definition example_url :: string where
  "example_url = ''http://10.0.14.6:8080/config?mac=00%3A16%3A3e%3A4f%3Ae5%3A74''"

definition example_sys :: sys where
  "example_sys =
     \<lparr>ParseCIDR = parse_cidr4,
      exec = (\<lambda>tr argv. (True, [])),
      WriteFile_ok = (\<lambda>tr path. True),
      MkdirAll_ok = (\<lambda>tr path. True),
      request_url = (\<lambda>serverURL mac.
         if serverURL = ''http://10.0.14.6:8080'' \<and> mac = ''00:16:3e:4f:e5:74''
         then Some example_url else None),
      http_Get = (\<lambda>tr u. if requests_sent tr < 2 then HttpResponse 503 ''starting''
                           else HttpResponse 200 ''{team1-web}''),
      json_Decode = (\<lambda>body. if body = ''{team1-web}'' then Some example_response else None)\<rparr>"

text \<open>The same system with no server to reach.\<close>

definition offline_sys :: sys where
  "offline_sys = example_sys\<lparr>http_Get := (\<lambda>tr u. TransportError)\<rparr>"




definition no_address_config :: NetworkConfig where
  "no_address_config = \<lparr>DHCP = False, Address = [], Gateway = [], DNS = [], Routes = []\<rparr>"

section \<open>Properties of the string functions\<close>

lemma is_space_upper_char: "is_space (upper_char c) = is_space c"
  by (simp add: is_space_def upper_char_def lower_letters_def upper_letters_def)

lemma lower_upper_char: "lower_char (upper_char c) = lower_char c"
  by (simp add: upper_char_def lower_char_def lower_letters_def upper_letters_def)

lemma upper_lower_char: "upper_char (lower_char c) = upper_char c"
  by (simp add: upper_char_def lower_char_def lower_letters_def upper_letters_def)

lemma TrimSpace_ToUpper: "TrimSpace (ToUpper s) = ToUpper (TrimSpace s)"
proof -
  have dw: "dropWhile is_space (map upper_char xs) = map upper_char (dropWhile is_space xs)" for xs
    by (induction xs) (simp_all add: is_space_upper_char)
  show ?thesis
    by (simp add: TrimSpace_def ToUpper_def dw rev_map)
qed

lemma ToUpper_eq_iff_EqualFold: "ToUpper s = ToUpper t \<longleftrightarrow> EqualFold s t"
proof
  assume "ToUpper s = ToUpper t"
  then have "ToLower (ToUpper s) = ToLower (ToUpper t)" by simp
  then show "EqualFold s t"
    by (simp add: EqualFold_def ToLower_def ToUpper_def lower_upper_char comp_def)
next
  assume "EqualFold s t"
  then have "ToUpper (ToLower s) = ToUpper (ToLower t)" by (simp add: EqualFold_def)
  then show "ToUpper s = ToUpper t"
    by (simp add: ToLower_def ToUpper_def upper_lower_char comp_def)
qed

lemma ToUpper_DHCP: "ToUpper ''DHCP'' = ''DHCP''"
  by (simp add: ToUpper_def upper_char_def lower_letters_def upper_letters_def)

text \<open>The test of line 171 (upper-case, then trim, then compare) is the test the
  specification words: trim, then compare without regard to case.\<close>

lemma is_DHCP_iff:
  "TrimSpace (ToUpper s) = ''DHCP'' \<longleftrightarrow> EqualFold (TrimSpace s) ''DHCP''"
  using ToUpper_eq_iff_EqualFold [of "TrimSpace s" "''DHCP''"]
  by (simp add: TrimSpace_ToUpper ToUpper_DHCP)

lemma ReplaceAll_char: "ReplaceAll s [c] [d] = map (\<lambda>x. if x = c then d else x) s"
  by (induction s) auto

section \<open>The declaration parser\<close>

text \<open>
  Claim C9. For any declaration whose trimmed value equals \<open>DHCP\<close> without regard to
  case, \<open>parseAllNetworkConfigs\<close> returns the empty interface map, whatever the YAML
  parser would make of the text.
\<close>

theorem parseAllNetworkConfigs_DHCP:
  "EqualFold (TrimSpace (index_str (Config instance) ''cloud-init.network-config'')) ''DHCP''
   \<Longrightarrow> parseAllNetworkConfigs yaml instance = []"
  by (simp add: parseAllNetworkConfigs_def is_DHCP_iff)

theorem parseAllNetworkConfigs_DHCP_witness:
  "EqualFold (TrimSpace (index_str (Config dhcp_instance) ''cloud-init.network-config'')) ''DHCP''
   \<and> parseAllNetworkConfigs (\<lambda>text. Some \<lparr>Ethernets = [(''eth0'', example_ethernet)]\<rparr>)
        dhcp_instance = []"
proof -
  have h: "EqualFold (TrimSpace (index_str (Config dhcp_instance) ''cloud-init.network-config''))
             ''DHCP''"
    by (simp add: dhcp_instance_def EqualFold_def TrimSpace_def index_str_def is_space_def
          ToLower_def lower_char_def lower_letters_def upper_letters_def)
  show ?thesis using h parseAllNetworkConfigs_DHCP [OF h] by simp
qed

lemma process_routes_fields:
  "DHCP (process_routes routes c) = DHCP c"
  "Address (process_routes routes c) = Address c"
  "DNS (process_routes routes c) = DNS c"
  by (induction routes arbitrary: c) simp_all

lemma process_routes_Routes:
  "Routes (process_routes routes c)
     = Routes c @ filter (\<lambda>route. \<not> is_default_route route) routes"
  by (induction routes arbitrary: c) simp_all

lemma process_routes_Gateway:
  "Gateway (process_routes routes c)
     = (if Gateway c \<noteq> [] then Gateway c else derived_gateway routes)"
  by (induction routes arbitrary: c) (auto simp: derived_gateway_def)

lemma ethernet_config_fields:
  "DHCP (ethernet_config eth) = DHCP4 eth"
  "Address (ethernet_config eth) = (case Addresses eth of [] \<Rightarrow> [] | a # _ \<Rightarrow> a)"
  "Gateway (ethernet_config eth)
     = (if Gateway4 eth \<noteq> [] then Gateway4 eth else derived_gateway (eth_Routes eth))"
  "Routes (ethernet_config eth) = filter (\<lambda>route. \<not> is_default_route route) (eth_Routes eth)"
  "DNS (ethernet_config eth) = Nameservers eth"
  by (simp_all add: ethernet_config_def Let_def process_routes_fields process_routes_Routes
        process_routes_Gateway zero_NetworkConfig_def split: list.splits)

text \<open>The loop over the declared interfaces yields one entry per declared name.\<close>

lemma map_of_parse_ethernets:
  "distinct (map fst eths) \<Longrightarrow>
   map_of (parse_ethernets eths networks) ifaceName =
     (case map_of eths ifaceName of
        Some eth \<Rightarrow> Some (ethernet_config eth)
      | None \<Rightarrow> map_of networks ifaceName)"
proof (induction eths arbitrary: networks)
  case Nil
  then show ?case by simp
next
  case (Cons p eths)
  obtain k e where p: "p = (k, e)" by (cases p)
  from Cons.prems p have d: "distinct (map fst eths)" and nk: "k \<notin> fst ` set eths" by auto
  from nk have none: "map_of eths k = None" by (simp add: map_of_eq_None_iff)
  show ?case
    using Cons.IH [OF d, of "AList.update k (ethernet_config e) networks"] none
    by (auto simp: p update_conv' split: option.splits)
qed

text \<open>
  Claim C1, as the code has it. For every interface of a structured declaration the
  resulting \<open>NetworkConfig\<close> has: the declared gateway field as its gateway when that
  field is not empty, otherwise the \<open>via\<close> of the first route to \<open>default\<close> or
  \<open>0.0.0.0/0\<close> whose \<open>via\<close> is not empty (empty when there is none); as its routes the
  declared routes that do not go to \<open>default\<close> or \<open>0.0.0.0/0\<close>, in declared order
  (every default route is left out, whether or not it gave the gateway); as its DNS
  list the declared name servers in declared order; the DHCP flag copied and the first
  address.
\<close>

theorem parseAllNetworkConfigs_interface:
  assumes "\<not> EqualFold (TrimSpace (index_str (Config instance) ''cloud-init.network-config''))
              ''DHCP''"
    and "yaml (index_str (Config instance) ''cloud-init.network-config'') = Some cloudInit"
    and "distinct (map fst (Ethernets cloudInit))"
    and "map_of (Ethernets cloudInit) ifaceName = Some eth"
  shows "\<exists>netConfig. map_of (parseAllNetworkConfigs yaml instance) ifaceName = Some netConfig
      \<and> Gateway netConfig =
          (if Gateway4 eth \<noteq> [] then Gateway4 eth else derived_gateway (eth_Routes eth))
      \<and> Routes netConfig = filter (\<lambda>route. \<not> is_default_route route) (eth_Routes eth)
      \<and> DNS netConfig = Nameservers eth
      \<and> DHCP netConfig = DHCP4 eth
      \<and> Address netConfig = (case Addresses eth of [] \<Rightarrow> [] | a # _ \<Rightarrow> a)"
proof -
  have "map_of (parseAllNetworkConfigs yaml instance) ifaceName = Some (ethernet_config eth)"
    using assms by (simp add: parseAllNetworkConfigs_def is_DHCP_iff map_of_parse_ethernets)
  then show ?thesis by (simp add: ethernet_config_fields)
qed

text \<open>The scenario of the specification: one interface, a default route and one extra
  route.\<close>

theorem parseAllNetworkConfigs_interface_witness:
  "map_of (parseAllNetworkConfigs example_yaml example_instance) ''eth0''
   = Some \<lparr>DHCP = False, Address = ''10.0.1.10/24'', Gateway = ''10.0.1.1'',
        DNS = [''10.0.1.53'', ''10.0.1.54''],
        Routes = [\<lparr>To = ''10.0.2.0/24'', Via = ''10.0.1.5''\<rparr>]\<rparr>"
proof -
  have h1: "\<not> EqualFold (TrimSpace (index_str (Config example_instance)
              ''cloud-init.network-config'')) ''DHCP''"
    by (simp add: example_instance_def index_str_def TrimSpace_def is_space_def EqualFold_def
          ToLower_def)
  have h2: "example_yaml (index_str (Config example_instance) ''cloud-init.network-config'')
              = Some \<lparr>Ethernets = [(''eth0'', example_ethernet)]\<rparr>"
    by (simp add: example_yaml_def example_instance_def index_str_def)
  have h3: "distinct (map fst (Ethernets \<lparr>Ethernets = [(''eth0'', example_ethernet)]\<rparr>))"
    by simp
  have h4: "map_of (Ethernets \<lparr>Ethernets = [(''eth0'', example_ethernet)]\<rparr>) ''eth0''
              = Some example_ethernet"
    by simp
  from parseAllNetworkConfigs_interface [where yaml = example_yaml, OF h1 h2 h3 h4]
  show ?thesis
    by (auto simp: example_ethernet_def derived_gateway_def is_default_route_def)
qed

text \<open>
  Claim C1 as it is worded fails when two routes go to the default destination: the
  second is not the route that gave the gateway, so it should pass through, and the code
  leaves it out.
\<close>

theorem parseAllNetworkConfigs_routes_counterexample:
  "Routes (ethernet_config two_default_routes) = [\<lparr>To = ''10.0.2.0/24'', Via = ''10.0.1.5''\<rparr>]
   \<and> stated_routes two_default_routes
       = [\<lparr>To = ''0.0.0.0/0'', Via = ''10.0.1.2''\<rparr>, \<lparr>To = ''10.0.2.0/24'', Via = ''10.0.1.5''\<rparr>]
   \<and> Routes (ethernet_config two_default_routes) \<noteq> stated_routes two_default_routes"
  by (simp add: ethernet_config_def stated_routes_def is_default_route_def
        zero_NetworkConfig_def two_default_routes_def)

section \<open>The instance matcher and the service\<close>

lemma config_has_mac_iff:
  "config_has_mac cfg mac
     \<longleftrightarrow> (\<exists>(key, val) \<in> set cfg. Contains key ''hwaddr'' \<and> EqualFold val mac)"
  by (induction cfg mac rule: config_has_mac.induct) (auto simp del: Contains.simps)

lemma find_instance_None_iff:
  "find_instance insts mac = None \<longleftrightarrow> (\<forall>inst \<in> set insts. \<not> declares_mac inst mac)"
  by (induction insts) (simp_all add: declares_mac_def config_has_mac_iff)

lemma find_instance_Some:
  "find_instance insts mac = Some inst \<Longrightarrow> inst \<in> set insts \<and> declares_mac inst mac"
  by (induction insts) (auto simp: declares_mac_def config_has_mac_iff split: if_splits)

text \<open>
  Claim C2. Reload is all-or-nothing. If the inventory file cannot be read or is
  malformed, \<open>Reload\<close> returns an error and the server is left as it was, so every MAC
  address resolves to the same record as before (and \<open>POST /reload\<close> answers 500 with
  the instances untouched). If the file is valid and holds the records \<open>insts\<close>, the
  snapshot becomes \<open>insts\<close>: a MAC address resolves exactly when one of these records
  declares it, it resolves to one of these records, and \<open>POST /reload\<close> answers 200 with
  their number.
\<close>

theorem Reload_all_or_nothing:
  "(ReadFile env (instancesFile s) = None
      \<or> (\<exists>data. ReadFile env (instancesFile s) = Some data \<and> json_Unmarshal env data = None)
    \<longrightarrow> fst (Reload env s) \<noteq> None \<and> snd (Reload env s) = s
        \<and> (\<forall>mac. findInstanceByMAC (snd (Reload env s)) mac = findInstanceByMAC s mac)
        \<and> (Method r = ''POST'' \<longrightarrow>
              Status (fst (HandleReload env now s r)) = 500
              \<and> instances (snd (HandleReload env now s r)) = instances s))
   \<and> (\<forall>data insts.
        ReadFile env (instancesFile s) = Some data \<and> json_Unmarshal env data = Some insts
        \<longrightarrow> Reload env s = (None, s\<lparr>instances := insts\<rparr>)
            \<and> (\<forall>mac. findInstanceByMAC (snd (Reload env s)) mac \<noteq> None
                        \<longleftrightarrow> (\<exists>inst \<in> set insts. declares_mac inst mac))
            \<and> (\<forall>mac inst. findInstanceByMAC (snd (Reload env s)) mac = Some inst
                        \<longrightarrow> inst \<in> set insts \<and> declares_mac inst mac)
            \<and> (Method r = ''POST'' \<longrightarrow>
                  fst (HandleReload env now s r)
                    = \<lparr>Status = 200, Body = ReloadText (length insts)\<rparr>
                  \<and> instances (snd (HandleReload env now s r)) = insts))"
proof -
  have fail1: "ReadFile env (instancesFile s) = None \<Longrightarrow> Reload env s = (Some ReadFailed, s)"
    by (simp add: Reload_def loadInstances_def)
  have fail2: "ReadFile env (instancesFile s) = Some data \<Longrightarrow> json_Unmarshal env data = None
      \<Longrightarrow> Reload env s = (Some ParseFailed, s)" for data
    by (simp add: Reload_def loadInstances_def)
  have ok: "ReadFile env (instancesFile s) = Some data \<Longrightarrow> json_Unmarshal env data = Some insts
      \<Longrightarrow> Reload env s = (None, s\<lparr>instances := insts\<rparr>)" for data insts
    by (simp add: Reload_def loadInstances_def)
  have hfail: "fst (Reload env s) \<noteq> None \<Longrightarrow> snd (Reload env s) = s \<Longrightarrow> Method r = ''POST'' \<Longrightarrow>
      Status (fst (HandleReload env now s r)) = 500
      \<and> instances (snd (HandleReload env now s r)) = instances s"
    by (auto simp: HandleReload_def Reload_def loadInstances_def updateActivity_def http_Error_def
          split: option.splits)
  have hok: "ReadFile env (instancesFile s) = Some data \<Longrightarrow> json_Unmarshal env data = Some insts
      \<Longrightarrow> Method r = ''POST'' \<Longrightarrow>
      fst (HandleReload env now s r) = \<lparr>Status = 200, Body = ReloadText (length insts)\<rparr>
      \<and> instances (snd (HandleReload env now s r)) = insts" for data insts
    by (simp add: HandleReload_def Reload_def loadInstances_def updateActivity_def)
  show ?thesis
  proof (intro conjI impI allI)
    assume "ReadFile env (instancesFile s) = None
      \<or> (\<exists>data. ReadFile env (instancesFile s) = Some data \<and> json_Unmarshal env data = None)"
    then have f: "fst (Reload env s) \<noteq> None \<and> snd (Reload env s) = s"
      using fail1 fail2 by auto
    from f show "fst (Reload env s) \<noteq> None" by simp
    from f show "snd (Reload env s) = s" by simp
    from f show "findInstanceByMAC (snd (Reload env s)) mac = findInstanceByMAC s mac" for mac
      by simp
    assume "Method r = ''POST''"
    with f hfail show "Status (fst (HandleReload env now s r)) = 500" by simp
    from f hfail \<open>Method r = ''POST''\<close>
    show "instances (snd (HandleReload env now s r)) = instances s" by simp
  next
    fix data insts
    assume h: "ReadFile env (instancesFile s) = Some data \<and> json_Unmarshal env data = Some insts"
    then have r: "Reload env s = (None, s\<lparr>instances := insts\<rparr>)" using ok by simp
    show "Reload env s = (None, s\<lparr>instances := insts\<rparr>)" by (rule r)
    show "findInstanceByMAC (snd (Reload env s)) mac \<noteq> None
            \<longleftrightarrow> (\<exists>inst \<in> set insts. declares_mac inst mac)" for mac
      by (simp add: r findInstanceByMAC_def find_instance_None_iff)
    show "inst \<in> set insts" if "findInstanceByMAC (snd (Reload env s)) mac = Some inst"
      for mac inst
      using that find_instance_Some [of insts mac inst] by (simp add: r findInstanceByMAC_def)
    show "declares_mac inst mac" if "findInstanceByMAC (snd (Reload env s)) mac = Some inst"
      for mac inst
      using that find_instance_Some [of insts mac inst] by (simp add: r findInstanceByMAC_def)
    assume "Method r = ''POST''"
    with hok h
    show "fst (HandleReload env now s r) = \<lparr>Status = 200, Body = ReloadText (length insts)\<rparr>"
      by simp
    from hok h \<open>Method r = ''POST''\<close>
    show "instances (snd (HandleReload env now s r)) = insts"
      by simp
  qed
qed

lemma example_env_files:
  "ReadFile example_env ''instances.json'' = Some ''[team1-web]''"
  "ReadFile example_env ''broken.json'' = Some ''[{''"
  "ReadFile example_env ''missing.json'' = None"
  "json_Unmarshal example_env ''[team1-web]'' = Some [example_instance]"
  "json_Unmarshal example_env ''[{'' = None"
  by (simp_all add: example_env_def)

theorem Reload_all_or_nothing_witness:
  "Reload example_env (example_server ''missing.json'') = (Some ReadFailed, example_server ''missing.json'')
   \<and> Reload example_env (example_server ''broken.json'') = (Some ParseFailed, example_server ''broken.json'')
   \<and> findInstanceByMAC (snd (Reload example_env (example_server ''broken.json''))) ''00:16:3e:aa:bb:cc''
       = Some dhcp_instance
   \<and> Status (fst (HandleReload example_env 7 (example_server ''broken.json'')
         \<lparr>Method = ''POST'', Query_mac = [], Writable = True\<rparr>)) = 500
   \<and> Reload example_env (example_server ''instances.json'')
       = (None, (example_server ''instances.json'')\<lparr>instances := [example_instance]\<rparr>)
   \<and> findInstanceByMAC (snd (Reload example_env (example_server ''instances.json''))) ''00:16:3e:4f:e5:74''
       = Some example_instance
   \<and> findInstanceByMAC (snd (Reload example_env (example_server ''instances.json''))) ''00:16:3e:aa:bb:cc''
       = None
   \<and> fst (HandleReload example_env 7 (example_server ''instances.json'')
         \<lparr>Method = ''POST'', Query_mac = [], Writable = True\<rparr>)
       = \<lparr>Status = 200, Body = ReloadText 1\<rparr>"
proof -
  let ?r = "\<lparr>Method = ''POST'', Query_mac = [], Writable = True\<rparr>"
  have f1: "instancesFile (example_server f) = f" for f by (simp add: example_server_def)
  note a = Reload_all_or_nothing [of example_env "example_server ''missing.json''" ?r 7]
  note b = Reload_all_or_nothing [of example_env "example_server ''broken.json''" ?r 7]
  note c = Reload_all_or_nothing [of example_env "example_server ''instances.json''" ?r 7]
  have old: "findInstanceByMAC (example_server f) ''00:16:3e:aa:bb:cc'' = Some dhcp_instance" for f
    by (simp add: findInstanceByMAC_def example_server_def dhcp_instance_def EqualFold_def)
  have d1: "declares_mac example_instance ''00:16:3e:4f:e5:74''"
    by (simp add: declares_mac_def example_instance_def EqualFold_def)
  have d2: "\<not> declares_mac example_instance ''00:16:3e:aa:bb:cc''"
    by (simp add: declares_mac_def example_instance_def EqualFold_def ToLower_def lower_char_def lower_letters_def upper_letters_def)
  from a have A: "Reload example_env (example_server ''missing.json'') = (Some ReadFailed, example_server ''missing.json'')"
    by (simp add: f1 example_env_files Reload_def loadInstances_def)
  from b have B: "snd (Reload example_env (example_server ''broken.json'')) = example_server ''broken.json''
     \<and> Status (fst (HandleReload example_env 7 (example_server ''broken.json'') ?r)) = 500"
    by (simp add: f1 example_env_files)
  have r1: "ReadFile example_env (instancesFile (example_server ''instances.json'')) = Some ''[team1-web]''
        \<and> json_Unmarshal example_env ''[team1-web]'' = Some [example_instance]"
    by (simp add: f1 example_env_files)
  note C = c [THEN conjunct2, rule_format, OF r1]
  have B': "Reload example_env (example_server ''broken.json'') = (Some ParseFailed, example_server ''broken.json'')"
    by (simp add: f1 example_env_files Reload_def loadInstances_def)
  let ?s' = "snd (Reload example_env (example_server ''instances.json''))"
  note iff = C [THEN conjunct2, THEN conjunct1, rule_format]
  note mem = C [THEN conjunct2, THEN conjunct2, THEN conjunct1, rule_format]
  have "findInstanceByMAC ?s' ''00:16:3e:4f:e5:74'' \<noteq> None"
    using iff [of "''00:16:3e:4f:e5:74''"] d1 by simp
  then obtain inst where i: "findInstanceByMAC ?s' ''00:16:3e:4f:e5:74'' = Some inst"
    by auto
  from mem [OF i] have "inst = example_instance" by simp
  with i have C1: "findInstanceByMAC ?s' ''00:16:3e:4f:e5:74'' = Some example_instance"
    by simp
  have C2: "findInstanceByMAC ?s' ''00:16:3e:aa:bb:cc'' = None"
    using iff [of "''00:16:3e:aa:bb:cc''"] d2 by simp
  from C have C3: "Reload example_env (example_server ''instances.json'')
       = (None, (example_server ''instances.json'')\<lparr>instances := [example_instance]\<rparr>)"
    by simp
  from C have C4: "fst (HandleReload example_env 7 (example_server ''instances.json'') ?r)
       = \<lparr>Status = 200, Body = ReloadText 1\<rparr>"
    by simp
  show ?thesis using A B B' C1 C2 C3 C4 old by simp
qed

text \<open>
  Claim C5, as the code has it. A resolve request (\<open>/config\<close>, whatever its method
  and parameters, found or not) and a reload request (\<open>/reload\<close>, whatever its method,
  succeeding or not) record the current time as \<open>lastActivity\<close>; a status query
  (\<open>/status\<close>) reads \<open>lastActivity\<close> and leaves it as it was.
\<close>

theorem activity_recorded:
  "lastActivity (snd (HandleConfig env now s r)) = now
   \<and> lastActivity (snd (HandleReload env now s r)) = now
   \<and> lastActivity (snd (HandleStatus now s r)) = lastActivity s"
  by (auto simp: HandleConfig_def HandleReload_def HandleStatus_def updateActivity_def Let_def
        Reload_def loadInstances_def split: option.splits)

theorem activity_recorded_witness:
  "lastActivity (snd (HandleConfig example_env 100 (example_server ''instances.json'')
      \<lparr>Method = ''GET'', Query_mac = ''00:16:3e:00:00:00'', Writable = True\<rparr>)) = 100
   \<and> Status (fst (HandleConfig example_env 100 (example_server ''instances.json'')
      \<lparr>Method = ''GET'', Query_mac = ''00:16:3e:00:00:00'', Writable = True\<rparr>)) = 404"
proof -
  have "Status (fst (HandleConfig example_env 100 (example_server ''instances.json'')
      \<lparr>Method = ''GET'', Query_mac = ''00:16:3e:00:00:00'', Writable = True\<rparr>)) = 404"
    by (simp add: HandleConfig_def normalize_mac_def findInstanceByMAC_def updateActivity_def
          example_server_def dhcp_instance_def http_Error_def EqualFold_def ToLower_def
          lower_char_def lower_letters_def upper_letters_def)
  with activity_recorded [of example_env 100 "example_server ''instances.json''"
      "\<lparr>Method = ''GET'', Query_mac = ''00:16:3e:00:00:00'', Writable = True\<rparr>"]
  show ?thesis by simp
qed

text \<open>A status query at time 100 leaves the activity time at 0: claim C5 as worded,
  that status queries record the current time, fails.\<close>

theorem status_query_counterexample:
  "Status (fst (HandleStatus 100 (example_server ''instances.json'')
      \<lparr>Method = ''GET'', Query_mac = [], Writable = True\<rparr>)) = 200
   \<and> lastActivity (example_server ''instances.json'') = 0
   \<and> lastActivity (snd (HandleStatus 100 (example_server ''instances.json'')
      \<lparr>Method = ''GET'', Query_mac = [], Writable = True\<rparr>)) \<noteq> 100"
  by (simp add: HandleStatus_def GetLastActivity_def example_server_def)

section \<open>MAC addresses\<close>

lemma nibble_high: "unat (drop_bit 4 (b :: 8 word)) < 16"
proof -
  have "unat b < 2 ^ LENGTH(8)" by (rule unsigned_less)
  then show ?thesis by (simp add: unat_drop_bit_eq drop_bit_eq_div unat_div)
qed

lemma nibble_low: "unat ((b :: 8 word) AND 0xF) < 16"
proof -
  have "b AND 0xF \<le> 0xF" by (rule word_and_le1)
  then have "unat (b AND 0xF) \<le> unat (0xF :: 8 word)" by (simp add: word_le_nat_alt)
  then show ?thesis by simp
qed

text \<open>The loop of \<open>HardwareAddr.String\<close> writes the lower-case colon form.\<close>

lemma hw_string_mac_text:
  "a \<noteq> [] \<Longrightarrow>
   hw_string i a buf = (if i > 0 then buf @ '':'' else buf) @ mac_text hexDigit CHR '':'' a"
proof (induction a arbitrary: i buf)
  case Nil
  then show ?case by simp
next
  case (Cons b a)
  show ?case
  proof (cases a)
    case Nil
    then show ?thesis by simp
  next
    case (Cons b' a')
    define buf' where "buf' = (if i > 0 then buf @ '':'' else buf) @ hex_pair hexDigit b"
    have "hw_string i (b # a) buf = hw_string (i + 1) a buf'"
      by (simp add: buf'_def)
    also have "\<dots> = (buf' @ '':'') @ mac_text hexDigit CHR '':'' a"
      using Cons.IH [of "i + 1" buf'] Cons by simp
    finally show ?thesis using Cons by (simp add: buf'_def)
  qed
qed

lemma HardwareAddr_String_eq: "HardwareAddr_String a = lower_colon_form a"
  by (cases a)
     (simp_all add: HardwareAddr_String_def lower_colon_form_def hw_string_mac_text
        del: hw_string.simps)

lemma normalize_mac_map: "normalize_mac s = map norm_char s"
  by (simp add: normalize_mac_def ToLower_def ReplaceAll_char norm_char_def comp_def)

lemma norm_digits_all:
  "\<forall>n \<in> set [0..<16]. norm_char (hexDigit ! n) = hexDigit ! n
      \<and> norm_char (HEXDIGIT ! n) = hexDigit ! n \<and> lower_char (hexDigit ! n) = hexDigit ! n"
  by code_simp

lemma norm_hexDigit: "n < 16 \<Longrightarrow> norm_char (hexDigit ! n) = hexDigit ! n"
  using norm_digits_all by simp

lemma norm_HEXDIGIT: "n < 16 \<Longrightarrow> norm_char (HEXDIGIT ! n) = hexDigit ! n"
  using norm_digits_all by simp

lemma lower_hexDigit: "n < 16 \<Longrightarrow> lower_char (hexDigit ! n) = hexDigit ! n"
  using norm_digits_all by simp

lemma norm_sep: "norm_char CHR '':'' = CHR '':''" "norm_char CHR ''-'' = CHR '':''"
  by (simp_all add: norm_char_def lower_char_def lower_letters_def upper_letters_def)

lemma map_norm_mac_text:
  assumes "\<And>n. n < 16 \<Longrightarrow> norm_char (digits ! n) = hexDigit ! n"
    and "norm_char sep = CHR '':''"
  shows "map norm_char (mac_text digits sep a) = mac_text hexDigit CHR '':'' a"
  by (induction a rule: induct_list012)
     (simp_all add: hex_pair_def assms nibble_high nibble_low)

lemma normalize_upper_colon: "normalize_mac (upper_colon_form a) = lower_colon_form a"
  by (simp add: normalize_mac_map upper_colon_form_def lower_colon_form_def
        map_norm_mac_text norm_HEXDIGIT norm_sep)

lemma normalize_lower_hyphen: "normalize_mac (lower_hyphen_form a) = lower_colon_form a"
  by (simp add: normalize_mac_map lower_hyphen_form_def lower_colon_form_def
        map_norm_mac_text norm_hexDigit norm_sep)

lemma normalize_lower_colon: "normalize_mac (lower_colon_form a) = lower_colon_form a"
  by (simp add: normalize_mac_map lower_colon_form_def
        map_norm_mac_text norm_hexDigit norm_sep)

lemma mac_text_Nil_iff: "mac_text digits sep a = [] \<longleftrightarrow> a = []"
  by (induction a rule: induct_list012) (simp_all add: hex_pair_def)

text \<open>
  Claim C3. A MAC address written in upper-case colon form and the same address
  written in lower-case hyphen form are both normalized to its lower-case colon form;
  so against any inventory they resolve to the same instance record or both to none,
  and \<open>HandleConfig\<close> answers the two requests alike.
\<close>

theorem mac_case_separator_insensitive:
  "normalize_mac (upper_colon_form a) = lower_colon_form a
   \<and> normalize_mac (lower_hyphen_form a) = lower_colon_form a
   \<and> findInstanceByMAC s (normalize_mac (upper_colon_form a))
       = findInstanceByMAC s (normalize_mac (lower_hyphen_form a))
   \<and> HandleConfig env now s (r\<lparr>Query_mac := upper_colon_form a\<rparr>)
       = HandleConfig env now s (r\<lparr>Query_mac := lower_hyphen_form a\<rparr>)"
proof -
  have e: "upper_colon_form a = [] \<longleftrightarrow> lower_hyphen_form a = []"
    by (simp add: upper_colon_form_def lower_hyphen_form_def mac_text_Nil_iff)
  show ?thesis
    by (simp add: normalize_upper_colon normalize_lower_hyphen HandleConfig_def e Let_def
          split: option.splits)
qed

lemma example_mac_forms:
  "upper_colon_form example_mac = ''00:16:3E:4F:E5:74''"
  "lower_hyphen_form example_mac = ''00-16-3e-4f-e5-74''"
  "lower_colon_form example_mac = ''00:16:3e:4f:e5:74''"
  by (simp_all add: upper_colon_form_def lower_hyphen_form_def lower_colon_form_def example_mac_def hex_pair_def
     hexDigit_def HEXDIGIT_def)

theorem mac_case_separator_insensitive_witness:
  "normalize_mac ''00:16:3E:4F:E5:74'' = ''00:16:3e:4f:e5:74''
   \<and> normalize_mac ''00-16-3e-4f-e5-74'' = ''00:16:3e:4f:e5:74''
   \<and> findInstanceByMAC \<lparr>instancesFile = ''instances.json'', instances = [dhcp_instance, example_instance], lastActivity = 0\<rparr>
        (normalize_mac ''00:16:3E:4F:E5:74'') = Some example_instance
   \<and> findInstanceByMAC \<lparr>instancesFile = ''instances.json'', instances = [dhcp_instance, example_instance], lastActivity = 0\<rparr>
        (normalize_mac ''00-16-3e-4f-e5-74'') = Some example_instance"
proof -
  let ?s = "\<lparr>instancesFile = ''instances.json'', instances = [dhcp_instance, example_instance], lastActivity = 0\<rparr>"
  note t = mac_case_separator_insensitive [of example_mac ?s example_env 0
     "\<lparr>Method = ''GET'', Query_mac = [], Writable = True\<rparr>", unfolded example_mac_forms]
  have f: "findInstanceByMAC ?s ''00:16:3e:4f:e5:74'' = Some example_instance"
    by (simp add: findInstanceByMAC_def dhcp_instance_def example_instance_def EqualFold_def
          ToLower_def lower_char_def lower_letters_def upper_letters_def)
  from t f show ?thesis by simp
qed

lemma ToLower_lower_colon: "ToLower (lower_colon_form a) = lower_colon_form a"
proof -
  have "lower_char CHR '':'' = CHR '':''"
    by (simp add: lower_char_def lower_letters_def upper_letters_def)
  then show ?thesis
    unfolding lower_colon_form_def ToLower_def
    by (induction a rule: induct_list012)
       (simp_all add: hex_pair_def nibble_high nibble_low lower_hexDigit)
qed

lemma first_valid_mac_form:
  "first_valid_mac ifs = Some mac \<Longrightarrow>
   \<exists>iface \<in> set ifs. HardwareAddr iface \<noteq> [] \<and> mac = lower_colon_form (HardwareAddr iface)"
  by (induction ifs)
     (auto simp: Let_def HardwareAddr_String_eq ToLower_lower_colon split: if_splits)

text \<open>
  Claim C10. Every MAC address that \<open>GetPrimaryMAC\<close> or \<open>GetMACByName\<close> returns is the
  lower-case colon form of a non-empty hardware address, and the server's normalization
  leaves it as it is.
\<close>

theorem discovered_mac_normal_form:
  "GetPrimaryMAC net_Interfaces = Inr mac \<or> GetMACByName net_InterfaceByName name = Inr mac
   \<Longrightarrow> (\<exists>a. a \<noteq> [] \<and> mac = lower_colon_form a) \<and> normalize_mac mac = mac"
proof -
  assume h: "GetPrimaryMAC net_Interfaces = Inr mac
               \<or> GetMACByName net_InterfaceByName name = Inr mac"
  have "\<exists>a. a \<noteq> [] \<and> mac = lower_colon_form a"
    using h
    by (auto simp: GetPrimaryMAC_def GetMACByName_def HardwareAddr_String_eq ToLower_lower_colon
          split: option.splits if_splits dest!: first_valid_mac_form)
  then show ?thesis by (auto simp: normalize_lower_colon)
qed

theorem discovered_mac_normal_form_witness:
  "GetPrimaryMAC (Some example_interfaces) = Inr ''00:16:3e:4f:e5:74''
   \<and> GetMACByName (\<lambda>name. find (\<lambda>iface. if_Name iface = name) example_interfaces) ''eth0''
       = Inr ''00:16:3e:4f:e5:74''
   \<and> normalize_mac ''00:16:3e:4f:e5:74'' = ''00:16:3e:4f:e5:74''"
proof -
  let ?byName = "\<lambda>name. find (\<lambda>iface. if_Name iface = name) example_interfaces"
  have g: "GetPrimaryMAC (Some example_interfaces) = Inr ''00:16:3e:4f:e5:74''"
    by (simp add: GetPrimaryMAC_def FlagUp_def FlagLoopback_def example_interfaces_def
          example_mac_def HardwareAddr_String_def hex_pair_def hexDigit_def ToLower_def
          lower_char_def lower_letters_def upper_letters_def)
  have n: "GetMACByName ?byName ''eth0'' = Inr ''00:16:3e:4f:e5:74''"
    by (simp add: GetMACByName_def example_interfaces_def
          example_mac_def HardwareAddr_String_def hex_pair_def hexDigit_def ToLower_def
          lower_char_def lower_letters_def upper_letters_def)
  from discovered_mac_normal_form [of "Some example_interfaces" "''00:16:3e:4f:e5:74''" ?byName
      "''eth0''", OF disjI1 [OF g]]
  have "normalize_mac ''00:16:3e:4f:e5:74'' = ''00:16:3e:4f:e5:74''" by simp
  with g n show ?thesis by simp
qed

section \<open>The fetch with retries\<close>

lemma requests_sent_simps [simp]:
  "requests_sent [] = 0"
  "requests_sent (a @ b) = requests_sent a + requests_sent b"
  "requests_sent (Get u # tr) = Suc (requests_sent tr)"
  "requests_sent (Sleep d # tr) = requests_sent tr"
  "requests_sent (Log f xs # tr) = requests_sent tr"
  by (simp_all add: requests_sent_def)

lemma failed_attempts_simps [simp]:
  "failed_attempts [] = 0"
  "failed_attempts (a @ b) = failed_attempts a + failed_attempts b"
  "failed_attempts (Get u # tr) = failed_attempts tr"
  "failed_attempts (Sleep d # tr) = failed_attempts tr"
  "failed_attempts (Log f xs # tr)
     = (if f = ''Request failed: %v'' then Suc (failed_attempts tr) else failed_attempts tr)"
  by (simp_all add: failed_attempts_def)

lemma pauses_simps [simp]:
  "pauses [] = []"
  "pauses (a @ b) = pauses a @ pauses b"
  "pauses (Get u # tr) = pauses tr"
  "pauses (Sleep d # tr) = d # pauses tr"
  "pauses (Log f xs # tr) = pauses tr"
  by (simp_all add: pauses_def)

lemma requestConfig_trace:
  "requestConfig sys serverURL mac tr = (res, tr') \<Longrightarrow>
   (tr' = tr \<and> (\<exists>e. res = Inl e)) \<or> (\<exists>u. tr' = tr @ [Get u])"
  by (auto simp: requestConfig_def Let_def split: option.splits http_result.splits if_splits)

lemma retry_from_run:
  "retry_from sys serverURL mac maxRetries retryDelay i lastErr tr = (res, tr') \<Longrightarrow> 0 \<le> i \<Longrightarrow>
   \<exists>new. tr' = tr @ new
     \<and> set (pauses new) \<subseteq> {retryDelay}
     \<and> requests_sent new \<le> attempts_made res new
     \<and> length (pauses new) + (if i = 0 \<and> attempts_made res new > 0 then 1 else 0)
         = attempts_made res new
     \<and> (case res of
           Inr cfg \<Rightarrow> (\<exists>tr0. requestConfig sys serverURL mac tr0 = (Inr cfg, tr'))
                      \<and> int (attempts_made res new) \<le> maxRetries - i
         | Inl err \<Rightarrow> int (attempts_made res new) = max 0 (maxRetries - i)
                      \<and> (\<exists>a. err = Errorf ''failed after %d retries: %w'' [I maxRetries, a]))"
proof (induction sys serverURL mac maxRetries retryDelay i lastErr tr arbitrary: res tr'
    rule: retry_from.induct)
  case (1 sys serverURL mac maxRetries retryDelay i lastErr tr)
  show ?case
  proof (cases "i < maxRetries")
    case False
    with "1.prems" show ?thesis
      by (auto simp: attempts_made_def)
  next
    case True
    define tr1 where "tr1 = (if i > 0
                   then tr @ [Log ''Retry %d/%d after %v...'' [I i, I (maxRetries - 1), I retryDelay],
                              Sleep retryDelay]
                   else tr)"
    obtain r tr2 where rc: "requestConfig sys serverURL mac tr1 = (r, tr2)"
      by (cases "requestConfig sys serverURL mac tr1")
    from requestConfig_trace [OF rc]
    obtain g where g: "tr2 = tr1 @ g" "requests_sent g \<le> 1" "pauses g = []" "failed_attempts g = 0"
      by auto
    show ?thesis
    proof (cases r)
      case (Inr cfg)
      with "1.prems" True rc have "res = Inr cfg" "tr' = tr2"
        by (simp_all add: tr1_def [symmetric])
      with g rc Inr True "1.prems"(2) show ?thesis
        by (auto simp: attempts_made_def tr1_def intro!: exI [of _ tr1])
    next
      case (Inl err)
      let ?tr3 = "tr2 @ [Log ''Request failed: %v'' [E err]]"
      from "1.prems" True rc Inl
      have rec: "retry_from sys serverURL mac maxRetries retryDelay (i + 1) (Some err) ?tr3 = (res, tr')"
        by (simp add: tr1_def [symmetric])
      from "1.IH" [OF True tr1_def rc [symmetric, unfolded Inl] _ rec] "1.prems"
      obtain new where new: "tr' = ?tr3 @ new"
        "set (pauses new) \<subseteq> {retryDelay}"
        "requests_sent new \<le> attempts_made res new"
        "length (pauses new) = attempts_made res new"
        "(case res of
           Inr cfg \<Rightarrow> (\<exists>tr0. requestConfig sys serverURL mac tr0 = (Inr cfg, tr'))
                      \<and> int (attempts_made res new) \<le> maxRetries - (i + 1)
         | Inl err \<Rightarrow> int (attempts_made res new) = max 0 (maxRetries - (i + 1))
                      \<and> (\<exists>a. err = Errorf ''failed after %d retries: %w'' [I maxRetries, a]))"
        by auto
      let ?new = "(if i > 0 then [Log ''Retry %d/%d after %v...'' [I i, I (maxRetries - 1), I retryDelay],
                              Sleep retryDelay] else []) @ g @ [Log ''Request failed: %v'' [E err]] @ new"
      have "tr' = tr @ ?new" using new(1) g(1) by (simp add: tr1_def)
      moreover have "attempts_made res ?new = Suc (attempts_made res new)"
        using g by (simp add: attempts_made_def)
      ultimately show ?thesis
        using new g True "1.prems"(2)
        by (intro exI [of _ ?new]) (auto split: sum.splits)
    qed
  qed
qed

lemma requestConfig_failure:
  "request_url sys serverURL mac = Some u \<Longrightarrow>
   http_Get sys tr u = TransportError
     \<or> (\<exists>code body. http_Get sys tr u = HttpResponse code body \<and> \<not> (200 \<le> code \<and> code < 300)) \<Longrightarrow>
   \<exists>err. requestConfig sys serverURL mac tr = (Inl err, tr @ [Get u])"
  by (auto simp: requestConfig_def)

lemma all_same_replicate: "set xs \<subseteq> {d} \<Longrightarrow> xs = replicate (length xs) d"
  by (induction xs) auto

text \<open>
  Claim C7. A run of \<open>requestConfigWithRetry\<close> makes at most \<open>maxRetries\<close> attempts,
  with a pause of \<open>retryDelay\<close> between two attempts and none before the first; when it
  returns a configuration, that is the result of its last request and nothing is done
  after it; when it returns an error, every one of the \<open>maxRetries\<close> attempts has failed.
  A transport error and any status outside 2xx make an attempt fail. In \<open>main\<close> (ten
  attempts, fifteen seconds apart) the error ends the process with status 1.
\<close>

theorem fetch_with_bounded_retry:
  "(\<forall>res tr'. requestConfigWithRetry sys serverURL mac maxRetries retryDelay tr = (res, tr') \<longrightarrow>
      (\<exists>new. tr' = tr @ new
         \<and> int (attempts_made res new) \<le> max 0 maxRetries
         \<and> requests_sent new \<le> attempts_made res new
         \<and> pauses new = replicate (attempts_made res new - 1) retryDelay
         \<and> (\<forall>cfg. res = Inr cfg \<longrightarrow>
               (\<exists>tr0. requestConfig sys serverURL mac tr0 = (Inr cfg, tr')))
         \<and> (\<forall>err. res = Inl err \<longrightarrow>
               int (failed_attempts new) = max 0 maxRetries
               \<and> (\<exists>a. err = Errorf ''failed after %d retries: %w'' [I maxRetries, a]))))
   \<and> (\<forall>u tr0. request_url sys serverURL mac = Some u
         \<and> (http_Get sys tr0 u = TransportError
             \<or> (\<exists>code body. http_Get sys tr0 u = HttpResponse code body
                   \<and> \<not> (200 \<le> code \<and> code < 300)))
        \<longrightarrow> (\<exists>err. requestConfig sys serverURL mac tr0 = (Inl err, tr0 @ [Get u])))
   \<and> (\<forall>err tr'. requestConfigWithRetry sys serverURL mac 10 (15 * Second) tr = (Inl err, tr')
        \<longrightarrow> fst (main_fetch sys serverURL mac tr) = Exited 1)"
proof (intro conjI allI impI)
  fix res tr'
  assume run: "requestConfigWithRetry sys serverURL mac maxRetries retryDelay tr = (res, tr')"
  from retry_from_run [OF run [unfolded requestConfigWithRetry_def]]
  obtain new where new: "tr' = tr @ new" "set (pauses new) \<subseteq> {retryDelay}"
    "requests_sent new \<le> attempts_made res new"
    "length (pauses new) + (if attempts_made res new > 0 then 1 else 0) = attempts_made res new"
    "case res of
       Inr cfg \<Rightarrow> (\<exists>tr0. requestConfig sys serverURL mac tr0 = (Inr cfg, tr'))
                  \<and> int (attempts_made res new) \<le> maxRetries - 0
     | Inl err \<Rightarrow> int (attempts_made res new) = max 0 (maxRetries - 0)
                  \<and> (\<exists>a. err = Errorf ''failed after %d retries: %w'' [I maxRetries, a])"
    by auto
  from new(4) have len: "length (pauses new) = attempts_made res new - 1"
    by (simp split: if_splits)
  have p: "pauses new = replicate (attempts_made res new - 1) retryDelay"
    using all_same_replicate [OF new(2)] len by simp
  show "\<exists>new. tr' = tr @ new
         \<and> int (attempts_made res new) \<le> max 0 maxRetries
         \<and> requests_sent new \<le> attempts_made res new
         \<and> pauses new = replicate (attempts_made res new - 1) retryDelay
         \<and> (\<forall>cfg. res = Inr cfg \<longrightarrow>
               (\<exists>tr0. requestConfig sys serverURL mac tr0 = (Inr cfg, tr')))
         \<and> (\<forall>err. res = Inl err \<longrightarrow>
               int (failed_attempts new) = max 0 maxRetries
               \<and> (\<exists>a. err = Errorf ''failed after %d retries: %w'' [I maxRetries, a]))"
    using new(1,3,5) p
    by (intro exI [of _ new]) (auto simp: attempts_made_def split: sum.splits)
next
  fix u tr0
  assume "request_url sys serverURL mac = Some u
         \<and> (http_Get sys tr0 u = TransportError
             \<or> (\<exists>code body. http_Get sys tr0 u = HttpResponse code body
                   \<and> \<not> (200 \<le> code \<and> code < 300)))"
  then show "\<exists>err. requestConfig sys serverURL mac tr0 = (Inl err, tr0 @ [Get u])"
    using requestConfig_failure [of sys serverURL mac u tr0] by blast
next
  fix err tr'
  assume "requestConfigWithRetry sys serverURL mac 10 (15 * Second) tr = (Inl err, tr')"
  then show "fst (main_fetch sys serverURL mac tr) = Exited 1"
    by (simp add: main_fetch_def)
qed

theorem fetch_with_bounded_retry_witness:
  "fst (requestConfigWithRetry example_sys ''http://10.0.14.6:8080'' ''00:16:3e:4f:e5:74''
          10 (15 * Second) []) = Inr example_response
   \<and> requests_sent (snd (requestConfigWithRetry example_sys ''http://10.0.14.6:8080''
          ''00:16:3e:4f:e5:74'' 10 (15 * Second) [])) = 3
   \<and> pauses (snd (requestConfigWithRetry example_sys ''http://10.0.14.6:8080''
          ''00:16:3e:4f:e5:74'' 10 (15 * Second) [])) = [15 * Second, 15 * Second]
   \<and> requestConfig example_sys ''http://10.0.14.6:8080'' ''00:16:3e:4f:e5:74'' []
       = (Inl (Errorf ''server returned %d: %s'' [I 503, S ''starting'']), [Get example_url])
   \<and> fst (main_fetch offline_sys ''http://10.0.14.6:8080'' ''00:16:3e:4f:e5:74'' []) = Exited 1
   \<and> failed_attempts (snd (requestConfigWithRetry offline_sys ''http://10.0.14.6:8080''
          ''00:16:3e:4f:e5:74'' 10 (15 * Second) [])) = 10"
proof -
  let ?url = "''http://10.0.14.6:8080''" and ?mac = "''00:16:3e:4f:e5:74''"
  let ?tr = "[Get example_url,
     Log ''Request failed: %v'' [E (Errorf ''server returned %d: %s'' [I 503, S ''starting''])],
     Log ''Retry %d/%d after %v...'' [I 1, I 9, I (15 * Second)],
     Sleep (15 * Second),
     Get example_url,
     Log ''Request failed: %v'' [E (Errorf ''server returned %d: %s'' [I 503, S ''starting''])],
     Log ''Retry %d/%d after %v...'' [I 2, I 9, I (15 * Second)],
     Sleep (15 * Second),
     Get example_url]"
  have run: "requestConfigWithRetry example_sys ?url ?mac 10 (15 * Second) []
               = (Inr example_response, ?tr)"
    by code_simp
  have "case fst (requestConfigWithRetry offline_sys ?url ?mac 10 (15 * Second) []) of
          Inl _ \<Rightarrow> True | Inr _ \<Rightarrow> False"
    by code_simp
  then obtain err tr2
    where off: "requestConfigWithRetry offline_sys ?url ?mac 10 (15 * Second) [] = (Inl err, tr2)"
    by (cases "requestConfigWithRetry offline_sys ?url ?mac 10 (15 * Second) []")
       (auto split: sum.splits)
  have u: "request_url example_sys ?url ?mac = Some example_url"
    by (simp add: example_sys_def)
  have g: "http_Get example_sys [] example_url = HttpResponse 503 ''starting''"
    by (simp add: example_sys_def)
  note a = fetch_with_bounded_retry [of example_sys ?url ?mac 10 "15 * Second" "[]"]
  note b = fetch_with_bounded_retry [of offline_sys ?url ?mac 10 "15 * Second" "[]"]
  have n: "requests_sent ?tr = 3" "failed_attempts ?tr = 2"
    by (simp_all add: requests_sent_def failed_attempts_def)
  from a [THEN conjunct1, rule_format, OF run] n
  have p: "pauses ?tr = [15 * Second, 15 * Second]"
    by (simp add: attempts_made_def numeral_2_eq_2)
  from b [THEN conjunct1, rule_format, OF off]
  have f: "failed_attempts tr2 = 10" by auto
  from b [THEN conjunct2, THEN conjunct2, rule_format, OF off]
  have x: "fst (main_fetch offline_sys ?url ?mac []) = Exited 1" .
  from a [THEN conjunct2, THEN conjunct1, rule_format, of example_url "[]"] u g
  have "\<exists>err. requestConfig example_sys ?url ?mac [] = (Inl err, [Get example_url])"
    by simp
  then have q: "requestConfig example_sys ?url ?mac []
       = (Inl (Errorf ''server returned %d: %s'' [I 503, S ''starting'']), [Get example_url])"
    by (auto simp: requestConfig_def u g)
  show ?thesis using run off n p f x q by simp
qed

section \<open>The OpenWrt interface names\<close>

lemma MapInterfaceName_table:
  "MapInterfaceName ''eth0'' = ''wan''" "MapInterfaceName ''eth-0'' = ''wan''"
  "MapInterfaceName ''eth1'' = ''lan''" "MapInterfaceName ''eth-1'' = ''lan''"
  "MapInterfaceName ''eth2'' = ''lan2''" "MapInterfaceName ''eth-2'' = ''lan2''"
  "MapInterfaceName ''eth3'' = ''lan3''" "MapInterfaceName ''eth-3'' = ''lan3''"
  "MapInterfaceName ''eth5'' = ''lan5''"
  by (simp_all add: MapInterfaceName_def InterfaceMapping_def ToLower_def lower_char_def
        lower_letters_def upper_letters_def)

lemma ReplaceAll_absent: "c \<notin> set s \<Longrightarrow> ReplaceAll s (c # old) new = s"
  by (induction s) auto

lemma lower_char_digit: "\<forall>c \<in> set ''0123456789''. lower_char c = c"
  by code_simp

lemma ToLower_digits: "set s \<subseteq> set ''0123456789'' \<Longrightarrow> ToLower s = s"
proof (induction s)
  case Nil
  then show ?case by (simp add: ToLower_def)
next
  case (Cons c s)
  from Cons.prems have "c \<in> set ''0123456789''" by simp
  with lower_char_digit have "lower_char c = c" by blast
  moreover from Cons have "ToLower s = s" by simp
  ultimately show ?case by (simp add: ToLower_def)
qed

lemma digits_no_e: "set s \<subseteq> set ''0123456789'' \<Longrightarrow> CHR ''e'' \<notin> set s"
  by auto

lemma digits_no_hyphen: "set s \<subseteq> set ''0123456789'' \<Longrightarrow> \<not> HasPrefix s ''-''"
  by (cases s) auto

text \<open>On the names \<open>eth<digits>\<close> and \<open>eth-<digits>\<close> the code does what is stated.\<close>

lemma MapInterfaceName_eth_digits:
  assumes "set s \<subseteq> set ''0123456789''"
  shows "MapInterfaceName (''eth'' @ s) = stated_MapInterfaceName (''eth'' @ s)"
    and "MapInterfaceName (''eth-'' @ s) = stated_MapInterfaceName (''eth-'' @ s)"
proof -
  have l: "ToLower (''eth'' @ s) = ''eth'' @ s" "ToLower (''eth-'' @ s) = ''eth-'' @ s"
    using ToLower_digits [OF assms]
    by (simp_all add: ToLower_def lower_char_def lower_letters_def upper_letters_def)
  have r1: "ReplaceAll (''eth'' @ s) ''eth-'' [] = ''eth'' @ s"
    using digits_no_hyphen [OF assms] ReplaceAll_absent [OF digits_no_e [OF assms]]
    by (cases s) auto
  have r2: "ReplaceAll (''eth'' @ s) ''eth'' [] = s"
    using ReplaceAll_absent [OF digits_no_e [OF assms]] by simp
  have r3: "ReplaceAll (''eth-'' @ s) ''eth-'' [] = s"
    using ReplaceAll_absent [OF digits_no_e [OF assms]] by simp
  have r4: "ReplaceAll s ''eth'' [] = s"
    using ReplaceAll_absent [OF digits_no_e [OF assms]] by simp
  have p1: "strip_eth_prefix (''eth'' @ s) = s"
    using digits_no_hyphen [OF assms] by (cases s) (simp_all add: strip_eth_prefix_def)
  have p2: "strip_eth_prefix (''eth-'' @ s) = s"
    by (simp add: strip_eth_prefix_def)
  note p = p1 p2
  show "MapInterfaceName (''eth'' @ s) = stated_MapInterfaceName (''eth'' @ s)"
    by (simp only: MapInterfaceName_def stated_MapInterfaceName_def Let_def l r1 r2 p)
  show "MapInterfaceName (''eth-'' @ s) = stated_MapInterfaceName (''eth-'' @ s)"
    by (simp only: MapInterfaceName_def stated_MapInterfaceName_def Let_def l r3 r4 p)
qed

text \<open>
  Claim C8. The table and the fallback rule hold for the names \<open>eth<digits>\<close> and
  \<open>eth-<digits>\<close> (the lemmas above), but the code removes \<open>eth-\<close> and \<open>eth\<close>
  wherever they occur in the lower-cased name, not only as a prefix: the name \<open>veth5\<close>
  is not in the table and has no prefix to strip, so the stated alias is \<open>lanveth5\<close>,
  and the code returns \<open>lanv5\<close>.
\<close>

theorem MapInterfaceName_inner_eth:
  "map_of InterfaceMapping ''veth5'' = None
   \<and> MapInterfaceName ''veth5'' = ''lanv5''
   \<and> stated_MapInterfaceName ''veth5'' = ''lanveth5''"
  by (simp add: MapInterfaceName_def stated_MapInterfaceName_def strip_eth_prefix_def
        InterfaceMapping_def ToLower_def lower_char_def lower_letters_def upper_letters_def)

section \<open>The appliers\<close>

lemma run_cmd_simps [simp]:
  "snd (run_cmd sys argv tr) = tr @ [Exec argv]"
  "fst (run_cmd sys argv tr) = exec sys tr argv"
  by (simp_all add: run_cmd_def)




lemma ConfigureInterface_invalid_address:
  "\<not> DHCP cfg \<Longrightarrow> ParseCIDR sys (Address cfg) = None \<Longrightarrow>
   ConfigureInterface sys uciInterface cfg tr = (Some invalid_address, tr)"
  by (simp add: ConfigureInterface_def configureInterfaceStatic_def invalid_address_def)

lemma filter_configuring_Exec [simp]: "filter is_configuring (map Exec cmds) = []"
  by (induction cmds) (simp_all add: is_configuring_def)














lemma configureNetworkManager_invalid_address:
  assumes "\<not> DHCP cfg" "ParseCIDR sys (Address cfg) = None"
  shows "\<exists>err tr'. configureNetworkManager sys ifaceName cfg tr = (Some err, tr')"
proof -
  have m: "nm_modify sys connName cfg tr1 = (Some invalid_address, tr1)" for connName tr1
    using assms by (simp add: nm_modify_def invalid_address_def)
  show ?thesis
  proof (cases "ifaceName = []")
    case True
    then show ?thesis
      by (cases "getNMConnectionName sys tr")
         (auto simp: configureNetworkManager_def m split: sum.splits)
  next
    case False
    then show ?thesis
      by (cases "getNMConnectionForInterface sys ifaceName tr")
         (auto simp: configureNetworkManager_def m split: sum.splits)
  qed
qed

text \<open>
  Claim C6. An interface with \<open>dhcp = false\<close> and an empty address is left alone
  without error only by the Netplan applier, which guards the address with
  \<open>cfg.Address != ""\<close>. The ifupdown applier, the OpenWrt applier, the Windows applier
  and the NetworkManager applier pass the empty address to \<open>net.ParseCIDR\<close> and return
  its failure as an error; ifupdown returns it for the whole batch, before anything is
  written.
\<close>

theorem empty_static_address_fails:
  assumes "ParseCIDR sys [] = None" and "\<not> DHCP cfg" and "Address cfg = []"
  shows "configureIfupdownAll sys [(ifaceName, cfg)] tr
           = (Some (Errorf ''invalid address format for %s: %w''
                      [S ifaceName, E (SysError ''net.ParseCIDR'')]), tr)
     \<and> configureInterfaceStatic sys uciInterface cfg tr = (Some invalid_address, tr)
     \<and> ConfigureInterface sys uciInterface cfg tr = (Some invalid_address, tr)
     \<and> configureStatic sys adapterName cfg tr = (Some invalid_address, tr)
     \<and> (\<exists>err tr'. configureNetworkManager sys ifaceName cfg tr = (Some err, tr'))
     \<and> (\<exists>content'. netplan_interface sys ifaceName cfg content = Inr content')"
proof (intro conjI)
  show "configureIfupdownAll sys [(ifaceName, cfg)] tr
           = (Some (Errorf ''invalid address format for %s: %w''
                      [S ifaceName, E (SysError ''net.ParseCIDR'')]), tr)"
    using assms by (simp add: configureIfupdownAll_def ifupdown_interface_def)
  show "configureInterfaceStatic sys uciInterface cfg tr = (Some invalid_address, tr)"
    using assms by (simp add: configureInterfaceStatic_def invalid_address_def)
  show "ConfigureInterface sys uciInterface cfg tr = (Some invalid_address, tr)"
    using assms by (simp add: ConfigureInterface_invalid_address)
  show "configureStatic sys adapterName cfg tr = (Some invalid_address, tr)"
    using assms by (simp add: configureStatic_def invalid_address_def)
  show "\<exists>err tr'. configureNetworkManager sys ifaceName cfg tr = (Some err, tr')"
    using assms configureNetworkManager_invalid_address [of cfg sys ifaceName tr] by simp
  show "\<exists>content'. netplan_interface sys ifaceName cfg content = Inr content'"
    using assms by (simp add: netplan_interface_def Let_def)
qed

theorem empty_static_address_fails_witness:
  "configureIfupdownAll example_sys [(''eth1'', no_address_config)] []
     = (Some (Errorf ''invalid address format for %s: %w''
                [S ''eth1'', E (SysError ''net.ParseCIDR'')]), [])
   \<and> configureInterfaceStatic example_sys ''lan'' no_address_config [] = (Some invalid_address, [])
   \<and> configureStatic example_sys ''Ethernet'' no_address_config [] = (Some invalid_address, [])
   \<and> netplan_interface example_sys ''eth1'' no_address_config []
       = Inr (''    eth1:'' @ nl @ ''      dhcp4: false'' @ nl)"
proof -
  have h1: "ParseCIDR example_sys [] = None" by code_simp
  have h2: "\<not> DHCP no_address_config" by (simp add: no_address_config_def)
  have h3: "Address no_address_config = []" by (simp add: no_address_config_def)
  note t = empty_static_address_fails [OF h1 h2 h3, of "''eth1''" "[]" "''lan''" "''Ethernet''" "[]"]
  have n: "netplan_interface example_sys ''eth1'' no_address_config []
       = Inr (''    eth1:'' @ nl @ ''      dhcp4: false'' @ nl)"
    by (simp add: netplan_interface_def no_address_config_def)
  from t n show ?thesis by simp
qed

end
